theory Spec2Isabelle
  imports Main "HOL-Library.Word"
begin

section \<open>FSearch application glue (src/fsearch.c): data model\<close>

text \<open>
  The theory embeds the database coordination code of \<^verbatim>\<open>src/fsearch.c\<close> and the
  parent-folder opener of \<^verbatim>\<open>src/fsearch_file_utils.c\<close>. The database engine itself
  (\<^verbatim>\<open>db_new\<close>, \<^verbatim>\<open>db_scan\<close>, \<^verbatim>\<open>db_load\<close>, \<^verbatim>\<open>db_save\<close>, \<^verbatim>\<open>db_ref\<close>,
  \<^verbatim>\<open>db_unref\<close>, \<^verbatim>\<open>db_get_num_entries\<close>) is not part of these sources: a database
  object is a value of the type parameter \<open>'db\<close>, the results of the engine's calls are
  inputs of the model, and the calls themselves are recorded as effects.
\<close>

type_synonym guint = "32 word"
type_synonym uint32_t = "32 word"

text \<open>
  \<^verbatim>\<open>FsearchConfig\<close> is declared in \<^verbatim>\<open>fsearch_config.h\<close>, which is not among the
  sources. The record holds the fields that the embedded functions read; the two
  interval fields are \<^verbatim>\<open>uint32_t\<close>, the width in which
  \<^verbatim>\<open>database_auto_update_init\<close> computes with them (its result is a \<^verbatim>\<open>guint\<close>).
\<close>

record FsearchConfig =
  update_database_on_launch :: bool
  update_database_every :: bool
  update_database_every_hours :: uint32_t
  update_database_every_minutes :: uint32_t
  show_indexing_status :: bool

datatype FsearchDatabaseState =
    FSEARCH_DATABASE_STATE_IDLE
  | FSEARCH_DATABASE_STATE_LOADING
  | FSEARCH_DATABASE_STATE_SCANNING

text \<open>
  \<^verbatim>\<open>FsearchDatabaseActionType\<close>: the two actions of the enum. Its third enumerator
  \<^verbatim>\<open>NUM_FSEARCH_DATABASE_ACTION_TYPES\<close> is the count sentinel; every call of
  \<^verbatim>\<open>database_scan_or_load_enqueue\<close> passes one of the two constants below, so the
  \<^verbatim>\<open>default: g_assert_not_reached()\<close> branch has no input.
\<close>

datatype FsearchDatabaseActionType =
    FSEARCH_DATABASE_ACTION_SCAN
  | FSEARCH_DATABASE_ACTION_LOAD

datatype fsearch_signal =
    FSEARCH_SIGNAL_DATABASE_SCAN_STARTED
  | FSEARCH_SIGNAL_DATABASE_UPDATE_FINISHED
  | FSEARCH_SIGNAL_DATABASE_LOAD_STARTED

text \<open>Function pointers stored in a \<^verbatim>\<open>DatabaseUpdateContext\<close>, by the function they name.\<close>

datatype update_func_ptr = Database_scan_and_save | Database_load
datatype started_cb_ptr = Database_scan_started_cb | Database_load_started_cb
datatype finished_cb_ptr = Database_update_finished_cb

text \<open>
  \<^verbatim>\<open>DatabaseUpdateContext\<close>. \<open>update_func\<close> is never null: the switch of
  \<^verbatim>\<open>database_scan_or_load_enqueue\<close>, the only place that builds a context, assigns it.
  \<open>action\<close> and \<open>cancelled_cb\<close> keep the zero that \<^verbatim>\<open>calloc\<close> gave them.
  The two data pointers are not fields here: \<^verbatim>\<open>started_cb_data\<close> is always the
  application, \<^verbatim>\<open>cancelled_cb_data\<close> stays null.
\<close>

record DatabaseUpdateContext =
  action :: FsearchDatabaseActionType
  update_func :: update_func_ptr
  started_cb :: "started_cb_ptr option"
  finished_cb :: "finished_cb_ptr option"
  cancelled_cb :: "unit option"

text \<open>
  A \<^verbatim>\<open>GThreadPool\<close> created by \<^verbatim>\<open>g_thread_pool_new\<close>, as GLib documents it: pushed
  tasks wait in a queue in the order of their pushes (no sort function is set), and a
  task leaves the queue to run only while fewer than \<open>max_threads\<close> tasks are running.
  A running task carries the database object that \<^verbatim>\<open>database_pool_func\<close> created
  for it, and whether its call of the engine was given the status callback.
\<close>

record 'db GThreadPool =
  max_threads :: nat
  exclusive :: bool
  pool_queue :: "DatabaseUpdateContext list"
  pool_running :: "(DatabaseUpdateContext \<times> 'db \<times> bool) list"

text \<open>Idle sources of the main loop: the callback and its \<^verbatim>\<open>user_data\<close>.\<close>

datatype 'db idle_source =
    On_database_update_finished "'db option"
  | On_database_load_started
  | On_database_scan_started
  | On_database_scan_enqueue
  | On_database_notify_status string

text \<open>
  Effects in program order. An access to one of the two shared fields of the
  application records whether the executing thread holds the state mutex at that
  point.
\<close>

datatype shared_field = Field_db | Field_num_database_update_active
datatype access_kind = Read | Write

datatype 'db effect =
    Access shared_field access_kind bool
  | Call_db_unref "'db"
  | Call_db_ref "'db option"
  | Call_db_scan "'db" bool
  | Call_db_load "'db" string bool
  | Call_db_save "'db" string
  | Call_db_new "'db"
  | Call_prepare_windows_for_db_update
  | Call_set_database_index_progress string
  | Signal_emit fsearch_signal
  | Pool_push DatabaseUpdateContext
  | Pool_start DatabaseUpdateContext

text \<open>
  \<^verbatim>\<open>struct _FsearchApplication\<close>: the fields the database coordination uses.
  \<open>db_thread_cancellable\<close> is the cancelled flag of the \<^verbatim>\<open>GCancellable\<close>, \<open>mutex\<close>
  tells whether the \<^verbatim>\<open>GMutex\<close> is locked, \<open>num_windows\<close> counts the application
  windows. \<^verbatim>\<open>int num_database_update_active\<close> is a 32-bit two's complement word.
\<close>

record 'db FsearchApplication =
  db :: "'db option"
  config :: FsearchConfig
  db_pool :: "'db GThreadPool option"
  new_window :: bool
  num_windows :: nat
  db_state :: FsearchDatabaseState
  db_timeout_id :: nat
  db_thread_cancellable :: bool
  num_database_update_active :: "32 word"
  mutex :: bool
  is_shutting_down :: bool

text \<open>
  The application together with what it acts on: the main loop's idle queue (dispatched
  oldest first) and timeout sources (id and interval in seconds; GLib hands out ids
  greater than 0, and ids are modelled for timeout sources only, the ones whose id the
  application keeps), the enabled flags of the application's actions, the user data
  directory of \<^verbatim>\<open>g_get_user_data_dir\<close>, and the effects so far.
\<close>

record 'db world = "'db FsearchApplication" +
  idle_sources :: "'db idle_source list"
  timeout_sources :: "(nat \<times> guint) list"
  next_source_id :: nat
  actions_enabled :: "string \<rightharpoonup> bool"
  user_data_dir :: string
  effects :: "'db effect list"

section \<open>GLib primitives\<close>

definition stmts :: "('s \<Rightarrow> 's) list \<Rightarrow> 's \<Rightarrow> 's" where
  "stmts fs s = fold (\<lambda>f. f) fs s"

definition emit :: "'db effect \<Rightarrow> 'db world \<Rightarrow> 'db world" where
  "emit e w = w\<lparr>effects := effects w @ [e]\<rparr>"

definition access :: "shared_field \<Rightarrow> access_kind \<Rightarrow> 'db world \<Rightarrow> 'db world" where
  "access f k w = emit (Access f k (mutex w)) w"

definition g_idle_add :: "'db idle_source \<Rightarrow> 'db world \<Rightarrow> 'db world" where
  "g_idle_add src w = w\<lparr>idle_sources := idle_sources w @ [src]\<rparr>"

definition g_source_remove :: "nat \<Rightarrow> 'db world \<Rightarrow> 'db world" where
  "g_source_remove tag w =
     w\<lparr>timeout_sources := filter (\<lambda>t. fst t \<noteq> tag) (timeout_sources w)\<rparr>"

definition g_timeout_add_seconds :: "guint \<Rightarrow> 'db world \<Rightarrow> nat \<times> 'db world" where
  "g_timeout_add_seconds interval w =
     (next_source_id w,
      w\<lparr>timeout_sources := timeout_sources w @ [(next_source_id w, interval)],
        next_source_id := Suc (next_source_id w)\<rparr>)"

definition g_cancellable_reset :: "'db world \<Rightarrow> 'db world" where
  "g_cancellable_reset w = w\<lparr>db_thread_cancellable := False\<rparr>"

definition g_cancellable_cancel :: "'db world \<Rightarrow> 'db world" where
  "g_cancellable_cancel w = w\<lparr>db_thread_cancellable := True\<rparr>"

definition g_cancellable_is_cancelled :: "'db world \<Rightarrow> bool" where
  "g_cancellable_is_cancelled w = db_thread_cancellable w"

section \<open>Periodic updates and the public getters\<close>

definition auto_update_seconds :: "FsearchConfig \<Rightarrow> guint" where
  "auto_update_seconds c =
     (let seconds = update_database_every_hours c * 3600 + update_database_every_minutes c * 60
      in if seconds < 60 then 60 else seconds)"

definition database_auto_update_init :: "'db world \<Rightarrow> 'db world" where
  "database_auto_update_init fsearch =
     (let fsearch1 =
            (if db_timeout_id fsearch \<noteq> 0
             then (g_source_remove (db_timeout_id fsearch) fsearch)\<lparr>db_timeout_id := 0\<rparr>
             else fsearch)
      in if update_database_every (config fsearch1)
         then (case g_timeout_add_seconds (auto_update_seconds (config fsearch1)) fsearch1 of
                 (tag, fsearch2) \<Rightarrow> fsearch2\<lparr>db_timeout_id := tag\<rparr>)
         else fsearch1)"

definition fsearch_application_state_lock :: "'db world \<Rightarrow> 'db world" where
  "fsearch_application_state_lock fsearch = fsearch\<lparr>mutex := True\<rparr>"

definition fsearch_application_state_unlock :: "'db world \<Rightarrow> 'db world" where
  "fsearch_application_state_unlock fsearch = fsearch\<lparr>mutex := False\<rparr>"

text \<open>
  The getters return their value and the world with the access recorded.
  \<^verbatim>\<open>db_get_num_entries\<close> is a parameter.
\<close>

definition fsearch_application_get_num_db_entries ::
  "('db \<Rightarrow> uint32_t) \<Rightarrow> 'db world \<Rightarrow> uint32_t \<times> 'db world" where
  "fsearch_application_get_num_db_entries db_get_num_entries fsearch =
     (case db fsearch of
        Some d \<Rightarrow> (db_get_num_entries d, access Field_db Read fsearch)
      | None \<Rightarrow> (0, access Field_db Read fsearch))"

definition fsearch_application_get_db :: "'db world \<Rightarrow> 'db option \<times> 'db world" where
  "fsearch_application_get_db fsearch =
     (db fsearch, emit (Call_db_ref (db fsearch)) (access Field_db Read fsearch))"

section \<open>The database coordination of fsearch.c\<close>

text \<open>
  What \<^verbatim>\<open>db_scan\<close> or \<^verbatim>\<open>db_load\<close> did in one call: its return value, and the texts
  it passed to the status callback (null texts included), when it was given one.
\<close>

record db_result =
  succeeded :: bool
  status_texts :: "string option list"

definition action_set_enabled :: "string \<Rightarrow> bool \<Rightarrow> 'db world \<Rightarrow> 'db world" where
  "action_set_enabled action_name enabled w =
     (case actions_enabled w action_name of
        None \<Rightarrow> w
      | Some _ \<Rightarrow> w\<lparr>actions_enabled := (actions_enabled w)(action_name \<mapsto> enabled)\<rparr>)"

definition on_database_notify_status :: "string \<Rightarrow> 'db world \<Rightarrow> 'db world" where
  "on_database_notify_status text app =
     stmts (replicate (num_windows app) (emit (Call_set_database_index_progress text))) app"

definition database_notify_status_cb :: "string option \<Rightarrow> 'db world \<Rightarrow> 'db world" where
  "database_notify_status_cb text w =
     (case text of None \<Rightarrow> w | Some t \<Rightarrow> g_idle_add (On_database_notify_status t) w)"

definition prepare_windows_for_db_update :: "'db world \<Rightarrow> 'db world" where
  "prepare_windows_for_db_update app = emit Call_prepare_windows_for_db_update app"

text \<open>\<^verbatim>\<open>g_clear_pointer(&db, db_unref)\<close> on the local pointer of a callback.\<close>

definition clear_local_db :: "'db option \<Rightarrow> 'db world \<Rightarrow> 'db world" where
  "clear_local_db p w = (case p of None \<Rightarrow> w | Some d \<Rightarrow> emit (Call_db_unref d) w)"

text \<open>
  \<^verbatim>\<open>g_clear_pointer(&self->db, db_unref)\<close>: reads the field and, when it is not null,
  sets it to null and unrefs the old object.
\<close>

definition clear_app_db :: "'db world \<Rightarrow> 'db world" where
  "clear_app_db self =
     (let self1 = access Field_db Read self
      in case db self1 of
           None \<Rightarrow> self1
         | Some old \<Rightarrow> emit (Call_db_unref old) ((access Field_db Write self1)\<lparr>db := None\<rparr>))"

definition on_database_update_finished :: "'db option \<Rightarrow> 'db world \<Rightarrow> 'db world" where
  "on_database_update_finished user_data self =
     (if is_shutting_down self then clear_local_db user_data self
      else stmts
        [fsearch_application_state_lock,
         (\<lambda>self.
            if \<not> g_cancellable_is_cancelled self
            then stmts
                   [prepare_windows_for_db_update,
                    clear_app_db,
                    access Field_db Write,
                    (\<lambda>self. self\<lparr>db := user_data\<rparr>)] self
            else clear_local_db user_data self),
         g_cancellable_reset,
         access Field_num_database_update_active Read,
         access Field_num_database_update_active Write,
         (\<lambda>self. self\<lparr>num_database_update_active := num_database_update_active self - 1\<rparr>),
         access Field_num_database_update_active Read,
         (\<lambda>self.
            if num_database_update_active self = 0
            then stmts
                   [action_set_enabled ''update_database'' True,
                    action_set_enabled ''cancel_update_database'' False] self
            else self),
         fsearch_application_state_unlock,
         emit (Signal_emit FSEARCH_SIGNAL_DATABASE_UPDATE_FINISHED)] self)"

definition database_update_finished_cb :: "'db option \<Rightarrow> 'db world \<Rightarrow> 'db world" where
  "database_update_finished_cb user_data self =
     g_idle_add (On_database_update_finished user_data)
       (self\<lparr>db_state := FSEARCH_DATABASE_STATE_IDLE\<rparr>)"

definition on_database_load_started :: "'db world \<Rightarrow> 'db world" where
  "on_database_load_started self = emit (Signal_emit FSEARCH_SIGNAL_DATABASE_LOAD_STARTED) self"

definition on_database_scan_started :: "'db world \<Rightarrow> 'db world" where
  "on_database_scan_started self = emit (Signal_emit FSEARCH_SIGNAL_DATABASE_SCAN_STARTED) self"

definition database_load_started_cb :: "'db world \<Rightarrow> 'db world" where
  "database_load_started_cb self =
     g_idle_add On_database_load_started (self\<lparr>db_state := FSEARCH_DATABASE_STATE_LOADING\<rparr>)"

definition database_scan_started_cb :: "'db world \<Rightarrow> 'db world" where
  "database_scan_started_cb self =
     g_idle_add On_database_scan_started (self\<lparr>db_state := FSEARCH_DATABASE_STATE_SCANNING\<rparr>)"

text \<open>
  Both path builders append to \<^verbatim>\<open>g_get_user_data_dir()\<close> and return the string, which
  is never null; the option type keeps the null checks of their callers.
\<close>

definition fsearch_application_get_database_file_path :: "'db world \<Rightarrow> string option" where
  "fsearch_application_get_database_file_path w =
     Some (user_data_dir w @ ''/'' @ ''fsearch'' @ ''/'' @ ''fsearch.db'')"

definition fsearch_application_get_database_dir :: "'db world \<Rightarrow> string option" where
  "fsearch_application_get_database_dir w = Some (user_data_dir w @ ''/'' @ ''fsearch'')"

text \<open>
  The calls into the engine. The engine works between its call and its return: the call
  is recorded with the status callback it was given (\<open>has_cb\<close>), by the return the
  engine has passed its texts to that callback, and the return value is \<open>succeeded\<close>.
\<close>

definition report_status :: "db_result \<Rightarrow> bool \<Rightarrow> 'db world \<Rightarrow> 'db world" where
  "report_status r has_cb w =
     (if has_cb then stmts (map database_notify_status_cb (status_texts r)) w else w)"

definition db_scan_call :: "'db \<Rightarrow> bool \<Rightarrow> 'db world \<Rightarrow> 'db world" where
  "db_scan_call d has_cb w = emit (Call_db_scan d has_cb) w"

definition db_load_call :: "'db \<Rightarrow> string \<Rightarrow> bool \<Rightarrow> 'db world \<Rightarrow> 'db world" where
  "db_load_call d file_path has_cb w = emit (Call_db_load d file_path has_cb) w"

definition db_scan :: "db_result \<Rightarrow> 'db \<Rightarrow> bool \<Rightarrow> 'db world \<Rightarrow> 'db world" where
  "db_scan r d has_cb w = report_status r has_cb (db_scan_call d has_cb w)"

definition db_load :: "db_result \<Rightarrow> 'db \<Rightarrow> string \<Rightarrow> bool \<Rightarrow> 'db world \<Rightarrow> 'db world" where
  "db_load r d file_path has_cb w = report_status r has_cb (db_load_call d file_path has_cb w)"

definition saving_text :: string where
  "saving_text = ''Saving'' @ [CHR 0xE2, CHR 0x80, CHR 0xA6]"

definition database_scan_and_save :: "db_result \<Rightarrow> 'db \<Rightarrow> 'db world \<Rightarrow> 'db world" where
  "database_scan_and_save r d app =
     (let app1 = db_scan r d (show_indexing_status (config app)) app;
          scan_successful = succeeded r
      in if scan_successful \<and> \<not> g_cancellable_is_cancelled app1
         then (case fsearch_application_get_database_dir app1 of
                 None \<Rightarrow> app1
               | Some db_path \<Rightarrow>
                   emit (Call_db_save d db_path)
                     (if show_indexing_status (config app1)
                      then database_notify_status_cb (Some saving_text) app1
                      else app1))
         else app1)"

definition database_load :: "db_result \<Rightarrow> 'db \<Rightarrow> 'db world \<Rightarrow> 'db world" where
  "database_load r d app =
     (case fsearch_application_get_database_file_path app of
        None \<Rightarrow> app
      | Some db_file_path \<Rightarrow>
          (let app1 = db_load r d db_file_path (show_indexing_status (config app)) app
           in if \<not> succeeded r \<and> \<not> update_database_on_launch (config app1)
              then g_idle_add On_database_scan_enqueue app1
              else app1))"

text \<open>
  The two update functions in the parts between which the engine works: up to the call
  of the engine, where the status callback is chosen from the configuration, and from
  the return of that call on.
\<close>

definition database_scan_and_save_call :: "'db \<Rightarrow> 'db world \<Rightarrow> 'db world" where
  "database_scan_and_save_call d app = db_scan_call d (show_indexing_status (config app)) app"

definition database_scan_and_save_return ::
  "db_result \<Rightarrow> 'db \<Rightarrow> bool \<Rightarrow> 'db world \<Rightarrow> 'db world" where
  "database_scan_and_save_return r d has_cb app =
     (let app1 = report_status r has_cb app;
          scan_successful = succeeded r
      in if scan_successful \<and> \<not> g_cancellable_is_cancelled app1
         then (case fsearch_application_get_database_dir app1 of
                 None \<Rightarrow> app1
               | Some db_path \<Rightarrow>
                   emit (Call_db_save d db_path)
                     (if show_indexing_status (config app1)
                      then database_notify_status_cb (Some saving_text) app1
                      else app1))
         else app1)"

definition database_load_call :: "'db \<Rightarrow> 'db world \<Rightarrow> 'db world" where
  "database_load_call d app =
     (case fsearch_application_get_database_file_path app of
        None \<Rightarrow> app
      | Some db_file_path \<Rightarrow>
          db_load_call d db_file_path (show_indexing_status (config app)) app)"

definition database_load_return :: "db_result \<Rightarrow> bool \<Rightarrow> 'db world \<Rightarrow> 'db world" where
  "database_load_return r has_cb app =
     (case fsearch_application_get_database_file_path app of
        None \<Rightarrow> app
      | Some db_file_path \<Rightarrow>
          (let app1 = report_status r has_cb app
           in if \<not> succeeded r \<and> \<not> update_database_on_launch (config app1)
              then g_idle_add On_database_scan_enqueue app1
              else app1))"

definition g_thread_pool_push :: "DatabaseUpdateContext \<Rightarrow> 'db world \<Rightarrow> 'db world" where
  "g_thread_pool_push ctx w =
     (case db_pool w of
        None \<Rightarrow> w
      | Some p \<Rightarrow> emit (Pool_push ctx) (w\<lparr>db_pool := Some (p\<lparr>pool_queue := pool_queue p @ [ctx]\<rparr>)\<rparr>))"

definition new_context :: "FsearchDatabaseActionType \<Rightarrow> DatabaseUpdateContext" where
  "new_context act =
     (case act of
        FSEARCH_DATABASE_ACTION_SCAN \<Rightarrow>
          \<lparr>action = FSEARCH_DATABASE_ACTION_SCAN, update_func = Database_scan_and_save,
           started_cb = Some Database_scan_started_cb,
           finished_cb = Some Database_update_finished_cb, cancelled_cb = None\<rparr>
      | FSEARCH_DATABASE_ACTION_LOAD \<Rightarrow>
          \<lparr>action = FSEARCH_DATABASE_ACTION_SCAN, update_func = Database_load,
           started_cb = Some Database_load_started_cb,
           finished_cb = Some Database_update_finished_cb, cancelled_cb = None\<rparr>)"

definition database_scan_or_load_enqueue ::
  "FsearchDatabaseActionType \<Rightarrow> 'db world \<Rightarrow> 'db world" where
  "database_scan_or_load_enqueue act app =
     stmts
       [action_set_enabled ''update_database'' False,
        action_set_enabled ''cancel_update_database'' True,
        g_cancellable_reset,
        access Field_num_database_update_active Read,
        access Field_num_database_update_active Write,
        (\<lambda>app. app\<lparr>num_database_update_active := num_database_update_active app + 1\<rparr>),
        g_thread_pool_push (new_context act)] app"

definition on_database_scan_enqueue :: "'db world \<Rightarrow> 'db world" where
  "on_database_scan_enqueue w = database_scan_or_load_enqueue FSEARCH_DATABASE_ACTION_SCAN w"

text \<open>
  \<^verbatim>\<open>database_pool_func\<close> in the two parts between which the engine works: up to the
  call of the engine in \<^verbatim>\<open>update_func\<close>, and from the return of that call on.
\<close>

definition database_pool_func_begin ::
  "DatabaseUpdateContext \<Rightarrow> 'db \<Rightarrow> 'db world \<Rightarrow> 'db world" where
  "database_pool_func_begin ctx d app =
     stmts
       [(\<lambda>app. case started_cb ctx of
                 None \<Rightarrow> app
               | Some Database_scan_started_cb \<Rightarrow> database_scan_started_cb app
               | Some Database_load_started_cb \<Rightarrow> database_load_started_cb app),
        fsearch_application_state_lock,
        emit (Call_db_new d),
        fsearch_application_state_unlock,
        (\<lambda>app. case update_func ctx of
                 Database_scan_and_save \<Rightarrow> database_scan_and_save_call d app
               | Database_load \<Rightarrow> database_load_call d app)] app"

definition database_pool_func_end ::
  "DatabaseUpdateContext \<Rightarrow> 'db \<Rightarrow> bool \<Rightarrow> db_result \<Rightarrow> 'db world \<Rightarrow> 'db world" where
  "database_pool_func_end ctx d has_cb r app =
     stmts
       [(\<lambda>app. case update_func ctx of
                 Database_scan_and_save \<Rightarrow> database_scan_and_save_return r d has_cb app
               | Database_load \<Rightarrow> database_load_return r has_cb app),
        (\<lambda>app. case finished_cb ctx of
                 None \<Rightarrow> app
               | Some Database_update_finished_cb \<Rightarrow> database_update_finished_cb (Some d) app)] app"

text \<open>The whole function, when nothing else happens while the engine works.\<close>

definition database_pool_func ::
  "DatabaseUpdateContext \<Rightarrow> 'db \<Rightarrow> db_result \<Rightarrow> 'db world \<Rightarrow> 'db world" where
  "database_pool_func ctx d r app =
     database_pool_func_end ctx d (show_indexing_status (config app)) r
       (database_pool_func_begin ctx d app)"

section \<open>Startup, actions and the main loop\<close>

text \<open>
  The actions of \<^verbatim>\<open>fsearch_app_entries\<close>; a \<^verbatim>\<open>GSimpleAction\<close> starts enabled.
\<close>

definition fsearch_app_entries :: "string list" where
  "fsearch_app_entries =
     [''new_window'', ''about'', ''online_help'', ''help'', ''donate_paypal'',
      ''donate_github'', ''bug_report'', ''forum'', ''update_database'',
      ''cancel_update_database'', ''preferences'', ''quit'']"

text \<open>
  The application after \<^verbatim>\<open>fsearch_application_init\<close> and
  \<^verbatim>\<open>fsearch_application_startup\<close>: the instance is zero-initialised, the configuration is
  the loaded (or default) one, no database is published, and the database pool is
  created with \<^verbatim>\<open>g_thread_pool_new(database_pool_func, app, 1, TRUE, NULL)\<close>.
\<close>

definition fsearch_application_startup :: "FsearchConfig \<Rightarrow> string \<Rightarrow> 'db world" where
  "fsearch_application_startup loaded_config data_dir =
     \<lparr>db = None,
      config = loaded_config,
      db_pool = Some \<lparr>max_threads = 1, exclusive = True, pool_queue = [], pool_running = []\<rparr>,
      new_window = False,
      num_windows = 0,
      db_state = FSEARCH_DATABASE_STATE_IDLE,
      db_timeout_id = 0,
      db_thread_cancellable = False,
      num_database_update_active = 0,
      mutex = False,
      is_shutting_down = False,
      idle_sources = [],
      timeout_sources = [],
      next_source_id = 1,
      actions_enabled = map_of (map (\<lambda>n. (n, True)) fsearch_app_entries),
      user_data_dir = data_dir,
      effects = [Access Field_db Write False]\<rparr>"

definition action_cancel_update_database_activated :: "'db world \<Rightarrow> 'db world" where
  "action_cancel_update_database_activated app = g_cancellable_cancel app"

definition action_update_database_activated :: "'db world \<Rightarrow> 'db world" where
  "action_update_database_activated app =
     database_scan_or_load_enqueue FSEARCH_DATABASE_ACTION_SCAN app"

definition action_new_window_activated :: "'db world \<Rightarrow> 'db world" where
  "action_new_window_activated app = app\<lparr>num_windows := Suc (num_windows app)\<rparr>"

text \<open>
  \<^verbatim>\<open>g_action_group_activate_action\<close>: a disabled or unknown action does nothing. Of the
  twelve actions, the three below touch the state of this model; the others open
  dialogs or pages, and \<^verbatim>\<open>quit\<close> leads to the shutdown.
\<close>

definition g_action_group_activate_action :: "string \<Rightarrow> 'db world \<Rightarrow> 'db world" where
  "g_action_group_activate_action action_name app =
     (if actions_enabled app action_name = Some True
      then (if action_name = ''update_database'' then action_update_database_activated app
            else if action_name = ''cancel_update_database''
              then action_cancel_update_database_activated app
            else if action_name = ''new_window'' then action_new_window_activated app
            else app)
      else app)"

definition on_database_auto_update :: "'db world \<Rightarrow> 'db world" where
  "on_database_auto_update self = g_action_group_activate_action ''update_database'' self"

text \<open>
  \<^verbatim>\<open>on_preferences_ui_finished\<close>: \<open>database_config_changed\<close> is what \<^verbatim>\<open>config_cmp\<close>
  answered for the old and the new configuration.
\<close>

definition on_preferences_ui_finished ::
  "FsearchConfig option \<Rightarrow> bool \<Rightarrow> 'db world \<Rightarrow> 'db world" where
  "on_preferences_ui_finished new_config database_config_changed app =
     (case new_config of
        None \<Rightarrow> app
      | Some c \<Rightarrow>
          stmts
            [(\<lambda>app. app\<lparr>config := c\<rparr>),
             database_auto_update_init,
             (\<lambda>app. if database_config_changed
                     then database_scan_or_load_enqueue FSEARCH_DATABASE_ACTION_SCAN app
                     else app)] app)"

definition fsearch_application_activate :: "'db world \<Rightarrow> 'db world" where
  "fsearch_application_activate self =
     (if \<not> new_window self \<and> 0 < num_windows self then self
      else stmts
        [g_action_group_activate_action ''new_window'',
         database_auto_update_init,
         g_cancellable_reset,
         database_scan_or_load_enqueue FSEARCH_DATABASE_ACTION_LOAD,
         (\<lambda>self. if update_database_on_launch (config self)
                  then database_scan_or_load_enqueue FSEARCH_DATABASE_ACTION_SCAN self
                  else self)] self)"

text \<open>
  \<^verbatim>\<open>fsearch_application_command_line\<close> for a command line without the
  \<^verbatim>\<open>preferences\<close> and \<^verbatim>\<open>update-database\<close> options.
\<close>

definition fsearch_application_command_line :: "bool \<Rightarrow> 'db world \<Rightarrow> 'db world" where
  "fsearch_application_command_line has_new_window_option self =
     stmts
       [(\<lambda>self. if has_new_window_option then self\<lparr>new_window := True\<rparr> else self),
        fsearch_application_activate,
        (\<lambda>self. self\<lparr>new_window := False\<rparr>)] self"

text \<open>
  The pool thread takes the oldest queued task when a thread is free, and runs it up to
  its call of the engine. The task is kept with the choice of the status callback that
  this call makes from the configuration.
\<close>

definition pool_start :: "'db \<Rightarrow> 'db world \<Rightarrow> 'db world" where
  "pool_start d w =
     (case db_pool w of
        None \<Rightarrow> w
      | Some p \<Rightarrow>
          (case pool_queue p of
             [] \<Rightarrow> w
           | ctx # rest \<Rightarrow>
               if length (pool_running p) < max_threads p
               then database_pool_func_begin ctx d
                      (emit (Pool_start ctx)
                         (w\<lparr>db_pool := Some (p\<lparr>pool_queue := rest,
                                                pool_running := pool_running p @
                                                  [(ctx, d, show_indexing_status (config w))]\<rparr>)\<rparr>))
               else w))"

text \<open>The engine call of the oldest running task returns.\<close>

definition pool_finish :: "db_result \<Rightarrow> 'db world \<Rightarrow> 'db world" where
  "pool_finish r w =
     (case db_pool w of
        None \<Rightarrow> w
      | Some p \<Rightarrow>
          (case pool_running p of
             [] \<Rightarrow> w
           | (ctx, d, has_cb) # rest \<Rightarrow>
               database_pool_func_end ctx d has_cb r
                 (w\<lparr>db_pool := Some (p\<lparr>pool_running := rest\<rparr>)\<rparr>)))"

text \<open>The main loop dispatches the oldest idle source (each returns \<^verbatim>\<open>G_SOURCE_REMOVE\<close>).\<close>

definition dispatch_idle :: "'db world \<Rightarrow> 'db world" where
  "dispatch_idle w =
     (case idle_sources w of
        [] \<Rightarrow> w
      | src # rest \<Rightarrow>
          (let w1 = w\<lparr>idle_sources := rest\<rparr>
           in case src of
                On_database_update_finished user_data \<Rightarrow> on_database_update_finished user_data w1
              | On_database_load_started \<Rightarrow> on_database_load_started w1
              | On_database_scan_started \<Rightarrow> on_database_scan_started w1
              | On_database_scan_enqueue \<Rightarrow> on_database_scan_enqueue w1
              | On_database_notify_status text \<Rightarrow> on_database_notify_status text w1))"

definition dispatch_timeout :: "nat \<Rightarrow> 'db world \<Rightarrow> 'db world" where
  "dispatch_timeout tag w =
     (if tag \<in> fst ` set (timeout_sources w) then on_database_auto_update w else w)"

text \<open>
  What can happen to the running application between startup and shutdown: a command
  line arrives, an action is activated, the preferences dialog finishes, the main loop
  dispatches an idle source or a timeout, the pool thread starts a task, the engine
  returns.
\<close>

datatype 'db event =
    Command_line bool
  | Activate_action string
  | Preferences_finished "FsearchConfig option" bool
  | Idle
  | Timeout nat
  | Worker_start "'db"
  | Worker_finish db_result

fun step :: "'db event \<Rightarrow> 'db world \<Rightarrow> 'db world" where
  "step (Command_line has_new_window_option) w = fsearch_application_command_line has_new_window_option w"
| "step (Activate_action action_name) w = g_action_group_activate_action action_name w"
| "step (Preferences_finished new_config changed) w = on_preferences_ui_finished new_config changed w"
| "step Idle w = dispatch_idle w"
| "step (Timeout tag) w = dispatch_timeout tag w"
| "step (Worker_start d) w = pool_start d w"
| "step (Worker_finish r) w = pool_finish r w"

definition run :: "'db event list \<Rightarrow> 'db world \<Rightarrow> 'db world" where
  "run evs w = fold step evs w"

text \<open>
  \<^verbatim>\<open>g_thread_pool_free(pool, FALSE, TRUE)\<close>, as GLib documents it: the call returns
  when the pool has processed all its tasks. The engine call of the running task returns,
  then the queued tasks run from start to end, in the order of the queue. \<open>outcome k\<close>
  is the database that \<^verbatim>\<open>db_new\<close> creates for the \<open>k\<close>-th of these tasks and the
  result of its engine call.
\<close>

fun finish_running ::
  "(DatabaseUpdateContext \<times> 'db \<times> bool) list \<Rightarrow> (nat \<Rightarrow> 'db \<times> db_result) \<Rightarrow> nat \<Rightarrow>
     'db world \<Rightarrow> 'db world" where
  "finish_running [] outcome k w = w"
| "finish_running ((ctx, d, has_cb) # ts) outcome k w =
     finish_running ts outcome (Suc k) (database_pool_func_end ctx d has_cb (snd (outcome k)) w)"

fun run_queued ::
  "DatabaseUpdateContext list \<Rightarrow> (nat \<Rightarrow> 'db \<times> db_result) \<Rightarrow> nat \<Rightarrow> 'db world \<Rightarrow> 'db world" where
  "run_queued [] outcome k w = w"
| "run_queued (ctx # cs) outcome k w =
     run_queued cs outcome (Suc k)
       (database_pool_func ctx (fst (outcome k)) (snd (outcome k)) (emit (Pool_start ctx) w))"

definition g_thread_pool_free ::
  "'db GThreadPool \<Rightarrow> (nat \<Rightarrow> 'db \<times> db_result) \<Rightarrow> 'db world \<Rightarrow> 'db world" where
  "g_thread_pool_free pool outcome w =
     run_queued (pool_queue pool) outcome (length (pool_running pool))
       (finish_running (pool_running pool) outcome 0 w)"

text \<open>
  \<^verbatim>\<open>fsearch_application_shutdown\<close> up to the return of \<^verbatim>\<open>g_thread_pool_free\<close>: the
  flag is set, the cancellable is cancelled, the field \<^verbatim>\<open>db_pool\<close> is nulled
  (\<^verbatim>\<open>g_steal_pointer\<close>), and the pool that was in it is freed. Shutdown ends a run of
  the events above; idle sources still pending are dispatched after it.
\<close>

definition fsearch_application_shutdown_pool ::
  "(nat \<Rightarrow> 'db \<times> db_result) \<Rightarrow> 'db world \<Rightarrow> 'db world" where
  "fsearch_application_shutdown_pool outcome fsearch =
     (case db_pool fsearch of
        None \<Rightarrow> fsearch
      | Some pool \<Rightarrow>
          stmts
            [(\<lambda>fsearch. fsearch\<lparr>is_shutting_down := True\<rparr>),
             g_cancellable_cancel,
             (\<lambda>fsearch. fsearch\<lparr>db_pool := None\<rparr>),
             g_thread_pool_free pool outcome] fsearch)"

section \<open>Opening the parent folder (fsearch_file_utils.c)\<close>

text \<open>
  The \<^verbatim>\<open>GFile\<close> operations of GIO that the function calls are parameters: a file is a
  value of \<open>'f\<close>, \<^verbatim>\<open>g_file_get_parent\<close> answers null for a file without a parent, and
  \<^verbatim>\<open>g_file_get_path\<close> answers null for a file without a local path.
\<close>

record 'f gfile_ops =
  g_file_new_for_path :: "string \<Rightarrow> 'f"
  g_file_get_parent :: "'f \<Rightarrow> 'f option"
  g_file_get_path :: "'f \<Rightarrow> string option"

text \<open>
  \<^verbatim>\<open>add_error_message_with_format\<close> appends \<^verbatim>\<open>description "item_name": reason\<close> and a
  newline to the messages, and does nothing when one of its arguments is null.
\<close>

definition add_error_message_with_format ::
  "string option \<Rightarrow> string option \<Rightarrow> string option \<Rightarrow> string option \<Rightarrow> string option" where
  "add_error_message_with_format error_messages description item_name reason =
     (case error_messages of
        None \<Rightarrow> error_messages
      | Some messages \<Rightarrow>
          (case description of
             None \<Rightarrow> error_messages
           | Some desc \<Rightarrow>
               (case item_name of
                  None \<Rightarrow> error_messages
                | Some item \<Rightarrow>
                    (case reason of
                       None \<Rightarrow> error_messages
                     | Some why \<Rightarrow>
                         Some (messages @ desc @ '' '' @ [CHR 0x22] @ item @ [CHR 0x22] @ '': '' @
                               why @ [CHR 0x0A])))))"

text \<open>
  The function ends in a call of \<^verbatim>\<open>open_with_cmd\<close> or of
  \<^verbatim>\<open>fsearch_file_utils_open_path\<close>, whose value it returns, or returns false after
  adding an error message. The result is that call with its arguments (the launch
  context and the messages are passed on unchanged), or the messages after the failure.
\<close>

datatype open_call =
    Open_with_cmd string string string
  | Fsearch_file_utils_open_path string bool

datatype open_parent_result =
    Returns_false "string option"
  | Returns_call open_call

definition fsearch_file_utils_open_parent_folder_with_optional_command ::
  "'f gfile_ops \<Rightarrow> string \<Rightarrow> string option \<Rightarrow> string option \<Rightarrow> open_parent_result" where
  "fsearch_file_utils_open_parent_folder_with_optional_command gio path cmd error_message =
     (let file = g_file_new_for_path gio path;
          parent = g_file_get_parent gio file;
          parent_path = g_file_get_path gio (case parent of Some p \<Rightarrow> p | None \<Rightarrow> file)
      in case parent_path of
           None \<Rightarrow>
             Returns_false
               (add_error_message_with_format error_message
                  (Some ''Error when opening parent folder'') (Some path)
                  (Some ''Failed to get parent path''))
         | Some folder \<Rightarrow>
             (case cmd of
                Some c \<Rightarrow> Returns_call (Open_with_cmd folder path c)
              | None \<Rightarrow> Returns_call (Fsearch_file_utils_open_path folder False)))"

text \<open>
  An instance of the operations for absolute POSIX paths: a file is the list of the
  components of its path, the root is the empty list and has no parent.
\<close>

fun path_components :: "string \<Rightarrow> string \<Rightarrow> string list" where
  "path_components acc [] = (if acc = [] then [] else [acc])"
| "path_components acc (c # cs) =
     (if c = CHR ''/''
      then (if acc = [] then path_components [] cs else acc # path_components [] cs)
      else path_components (acc @ [c]) cs)"

definition components_path :: "string list \<Rightarrow> string" where
  "components_path cs = (if cs = [] then ''/'' else concat (map (\<lambda>c. ''/'' @ c) cs))"

definition posix_file_ops :: "(string list) gfile_ops" where
  "posix_file_ops =
     \<lparr>g_file_new_for_path = path_components [],
      g_file_get_parent = (\<lambda>cs. if cs = [] then None else Some (butlast cs)),
      g_file_get_path = (\<lambda>cs. Some (components_path cs))\<rparr>"

section \<open>Observations on a world\<close>

definition is_db_save :: "'db effect \<Rightarrow> bool" where
  "is_db_save e = (case e of Call_db_save _ _ \<Rightarrow> True | _ \<Rightarrow> False)"


text \<open>An effect that is an access to a shared field made without the state mutex fails \<open>lock_held\<close>.\<close>

definition lock_held :: "'db effect \<Rightarrow> bool" where
  "lock_held e = (case e of Access _ _ held \<Rightarrow> held | _ \<Rightarrow> True)"

text \<open>The effects a function adds to those of the world it starts from.\<close>

definition new_effects :: "'db world \<Rightarrow> 'db world \<Rightarrow> 'db effect list" where
  "new_effects before after = drop (length (effects before)) (effects after)"

text \<open>The contexts pushed to the pool, and those a pool thread has started, oldest first.\<close>

definition pushed_tasks :: "'db world \<Rightarrow> DatabaseUpdateContext list" where
  "pushed_tasks w = List.map_filter (\<lambda>e. case e of Pool_push c \<Rightarrow> Some c | _ \<Rightarrow> None) (effects w)"

definition started_tasks :: "'db world \<Rightarrow> DatabaseUpdateContext list" where
  "started_tasks w = List.map_filter (\<lambda>e. case e of Pool_start c \<Rightarrow> Some c | _ \<Rightarrow> None) (effects w)"

text \<open>
  The databases handed to \<^verbatim>\<open>on_database_update_finished\<close> by the idle sources of a
  queue, oldest first.
\<close>

definition completions :: "'db idle_source list \<Rightarrow> 'db option list" where
  "completions srcs =
     List.map_filter (\<lambda>s. case s of On_database_update_finished d \<Rightarrow> Some d | _ \<Rightarrow> None) srcs"

text \<open>
  The requests in flight: enqueued and not yet finished by
  \<^verbatim>\<open>on_database_update_finished\<close>. Such a request waits in the pool's queue, runs on
  the pool thread, or waits for the main loop in an idle source.
\<close>

definition pool_tasks :: "'db GThreadPool option \<Rightarrow> nat" where
  "pool_tasks pool =
     (case pool of None \<Rightarrow> 0 | Some p \<Rightarrow> length (pool_queue p) + length (pool_running p))"

definition in_flight :: "'db world \<Rightarrow> nat" where
  "in_flight w = pool_tasks (db_pool w) + length (completions (idle_sources w))"

text \<open>
  A run during which the requests in flight stay below \<open>2 ^ 31\<close>, the range of the
  \<^verbatim>\<open>int\<close> counter.
\<close>

fun counter_in_range :: "'db event list \<Rightarrow> 'db world \<Rightarrow> bool" where
  "counter_in_range [] w = (in_flight w < 2 ^ 31)"
| "counter_in_range (e # es) w = (in_flight w < 2 ^ 31 \<and> counter_in_range es (step e w))"



text \<open>
  The request that completes when the engine returns next: the database of the oldest
  running task, when its \<^verbatim>\<open>database_pool_func\<close> has a \<^verbatim>\<open>finished_cb\<close> to call.
\<close>

definition completing :: "'db world \<Rightarrow> 'db option list" where
  "completing w =
     (case db_pool w of
        None \<Rightarrow> []
      | Some p \<Rightarrow>
          (case pool_running p of
             [] \<Rightarrow> []
           | (ctx, d, has_cb) # rest \<Rightarrow>
               (case finished_cb ctx of None \<Rightarrow> [] | Some cb \<Rightarrow> [Some d])))"

text \<open>The requests that complete during a run, in the order of their completion.\<close>

fun completed :: "'db event list \<Rightarrow> 'db world \<Rightarrow> 'db option list" where
  "completed [] w = []"
| "completed (e # es) w =
     (case e of Worker_finish r \<Rightarrow> completing w | _ \<Rightarrow> []) @ completed es (step e w)"

text \<open>
  The completion handlers that the main loop runs during a run, in the order of their
  dispatch: the database handed to each, and whether the handler found the application
  not shutting down and the cancellable not cancelled.
\<close>

fun handled :: "'db event list \<Rightarrow> 'db world \<Rightarrow> ('db option \<times> bool) list" where
  "handled [] w = []"
| "handled (e # es) w =
     (case e of
        Idle \<Rightarrow>
          map (\<lambda>user_data. (user_data, \<not> is_shutting_down w \<and> \<not> db_thread_cancellable w))
            (completions (take 1 (idle_sources w)))
      | _ \<Rightarrow> []) @ handled es (step e w)"

text \<open>The databases of the handlers that found both flags clear.\<close>

definition published :: "'db event list \<Rightarrow> 'db world \<Rightarrow> 'db option list" where
  "published evs w = map fst (filter snd (handled evs w))"


section \<open>Invariants of the running application\<close>

definition task_ok :: "DatabaseUpdateContext \<Rightarrow> bool" where
  "task_ok c = (finished_cb c = Some Database_update_finished_cb)"

text \<open>
  The pool is the one of the startup, at most one task runs, and the tasks started so
  far followed by the queue are the tasks pushed so far.
\<close>

definition pool_inv :: "'db world \<Rightarrow> bool" where
  "pool_inv w =
     (case db_pool w of
        None \<Rightarrow> False
      | Some p \<Rightarrow>
          max_threads p = 1 \<and> length (pool_running p) \<le> 1 \<and>
          list_all task_ok (pool_queue p) \<and> list_all task_ok (map fst (pool_running p)) \<and>
          started_tasks w @ pool_queue p = pushed_tasks w)"

definition counter_inv :: "'db world \<Rightarrow> bool" where
  "counter_inv w =
     (pool_inv w \<and>
      \<not> is_shutting_down w \<and>
      num_database_update_active w = of_nat (in_flight w) \<and>
      in_flight w < 2 ^ 31 \<and>
      actions_enabled w ''update_database'' = Some (in_flight w = 0))"

text \<open>What the two invariants read of a world.\<close>

definition coord_view ::
  "'db world \<Rightarrow> 'db GThreadPool option \<times> bool \<times> 32 word \<times> bool option \<times> 'db option list \<times>
     DatabaseUpdateContext list \<times> DatabaseUpdateContext list" where
  "coord_view w =
     (db_pool w, is_shutting_down w, num_database_update_active w,
      actions_enabled w ''update_database'', completions (idle_sources w),
      pushed_tasks w, started_tasks w)"

section \<open>Example inputs\<close>

definition example_config :: FsearchConfig where
  "example_config =
     \<lparr>update_database_on_launch = False, update_database_every = True,
      update_database_every_hours = 1, update_database_every_minutes = 30,
      show_indexing_status = False\<rparr>"

definition overflow_config :: FsearchConfig where
  "overflow_config =
     \<lparr>update_database_on_launch = False, update_database_every = True,
      update_database_every_hours = 1193047, update_database_every_minutes = 0,
      show_indexing_status = False\<rparr>"

definition example_world :: "nat world" where
  "example_world = fsearch_application_startup example_config ''/home/user/.local/share''"

definition ok_result :: db_result where
  "ok_result = \<lparr>succeeded = True, status_texts = []\<rparr>"

definition failed_result :: db_result where
  "failed_result = \<lparr>succeeded = False, status_texts = []\<rparr>"

text \<open>
  The first launch: the load of the saved database succeeds, and database 0 is
  published.
\<close>

definition first_launch :: "nat event list" where
  "first_launch = [Command_line False, Worker_start 0, Worker_finish ok_result, Idle, Idle]"

text \<open>A launch with the scan-on-launch policy: the load and the scan are both in flight.\<close>

definition launch_scan_config :: FsearchConfig where
  "launch_scan_config =
     \<lparr>update_database_on_launch = True, update_database_every = False,
      update_database_every_hours = 0, update_database_every_minutes = 0,
      show_indexing_status = True\<rparr>"

definition launch_scan_world :: "nat world" where
  "launch_scan_world = fsearch_application_startup launch_scan_config ''/home/user/.local/share''"

definition two_started :: "nat event list" where
  "two_started = [Command_line False, Worker_start 0]"

definition two_completed :: "nat event list" where
  "two_completed =
     [Command_line False, Worker_start 0, Worker_finish ok_result,
      Worker_start 1, Worker_finish ok_result]"

definition one_completed :: "nat event list" where
  "one_completed = [Command_line False, Worker_start 0, Worker_finish ok_result]"

text \<open>
  After the first launch a rescan is requested and started, and cancelled while the
  engine scans.
\<close>

definition cancelled_rescan :: "nat event list" where
  "cancelled_rescan =
     first_launch @
     [Activate_action ''update_database'', Worker_start 1,
      Activate_action ''cancel_update_database'']"


text \<open>The cancelled rescan, up to the completion handler of the scan.\<close>

definition cancelled_rescan_handled :: "nat event list" where
  "cancelled_rescan_handled = cancelled_rescan @ [Worker_finish failed_result, Idle, Idle]"



text \<open>
  A launch with the scan-on-launch policy: the load and the scan complete, and the main
  loop dispatches the idle queue.
\<close>

definition two_handled :: "nat event list" where
  "two_handled = two_completed @ [Idle, Idle, Idle, Idle, Idle]"

text \<open>
  The same launch, but the user cancels after the main loop has run the completion
  handler of the load, before it runs the one of the scan.
\<close>

definition late_cancel :: "nat event list" where
  "late_cancel =
     two_completed @
     [Idle, Idle, Activate_action ''cancel_update_database'', Idle, Idle, Idle]"

text \<open>
  For a shutdown: the \<open>k\<close>-th task that the pool still processes builds database
  \<open>k\<close>, and its engine call fails.
\<close>

definition shutdown_outcome :: "nat \<Rightarrow> nat \<times> db_result" where
  "shutdown_outcome k = (k, failed_result)"

section \<open>Basic facts\<close>

subsection \<open>Statement lists and the fields after each function\<close>

lemma stmts_Nil [simp]: "stmts [] s = s"
  by (simp add: stmts_def)

lemma stmts_Cons [simp]: "stmts (f # fs) s = stmts fs (f s)"
  by (simp add: stmts_def)

lemma stmts_notify:
  "stmts (map database_notify_status_cb ts) w =
     w\<lparr>idle_sources := idle_sources w @ map On_database_notify_status (List.map_filter (\<lambda>t. t) ts)\<rparr>"
  by (induction ts arbitrary: w)
     (simp_all add: database_notify_status_cb_def g_idle_add_def split: option.splits)

lemma report_status_eq:
  "report_status r has_cb w =
     (if has_cb
      then w\<lparr>idle_sources := idle_sources w @
                map On_database_notify_status (List.map_filter (\<lambda>t. t) (status_texts r))\<rparr>
      else w)"
  by (simp add: report_status_def stmts_notify)

lemma stmts_replicate_emit:
  "stmts (replicate n (emit e)) w = w\<lparr>effects := effects w @ replicate n e\<rparr>"
  by (induction n arbitrary: w) (simp_all add: emit_def replicate_app_Cons_same)

lemma emit_fields [simp]:
  "db (emit e w) = db w"
  "config (emit e w) = config w"
  "db_pool (emit e w) = db_pool w"
  "new_window (emit e w) = new_window w"
  "num_windows (emit e w) = num_windows w"
  "db_state (emit e w) = db_state w"
  "db_timeout_id (emit e w) = db_timeout_id w"
  "db_thread_cancellable (emit e w) = db_thread_cancellable w"
  "num_database_update_active (emit e w) = num_database_update_active w"
  "mutex (emit e w) = mutex w"
  "is_shutting_down (emit e w) = is_shutting_down w"
  "idle_sources (emit e w) = idle_sources w"
  "timeout_sources (emit e w) = timeout_sources w"
  "next_source_id (emit e w) = next_source_id w"
  "actions_enabled (emit e w) = actions_enabled w"
  "user_data_dir (emit e w) = user_data_dir w"
  "effects (emit e w) = effects w @ [e]"
  by (simp_all add: emit_def)

lemma access_fields [simp]:
  "db (access f k w) = db w"
  "config (access f k w) = config w"
  "db_pool (access f k w) = db_pool w"
  "new_window (access f k w) = new_window w"
  "num_windows (access f k w) = num_windows w"
  "db_state (access f k w) = db_state w"
  "db_timeout_id (access f k w) = db_timeout_id w"
  "db_thread_cancellable (access f k w) = db_thread_cancellable w"
  "num_database_update_active (access f k w) = num_database_update_active w"
  "mutex (access f k w) = mutex w"
  "is_shutting_down (access f k w) = is_shutting_down w"
  "idle_sources (access f k w) = idle_sources w"
  "timeout_sources (access f k w) = timeout_sources w"
  "next_source_id (access f k w) = next_source_id w"
  "actions_enabled (access f k w) = actions_enabled w"
  "user_data_dir (access f k w) = user_data_dir w"
  "effects (access f k w) = effects w @ [Access f k (mutex w)]"
  by (simp_all add: access_def emit_def)

lemma g_idle_add_fields [simp]:
  "db (g_idle_add src w) = db w"
  "config (g_idle_add src w) = config w"
  "db_pool (g_idle_add src w) = db_pool w"
  "new_window (g_idle_add src w) = new_window w"
  "num_windows (g_idle_add src w) = num_windows w"
  "db_state (g_idle_add src w) = db_state w"
  "db_timeout_id (g_idle_add src w) = db_timeout_id w"
  "db_thread_cancellable (g_idle_add src w) = db_thread_cancellable w"
  "num_database_update_active (g_idle_add src w) = num_database_update_active w"
  "mutex (g_idle_add src w) = mutex w"
  "is_shutting_down (g_idle_add src w) = is_shutting_down w"
  "idle_sources (g_idle_add src w) = idle_sources w @ [src]"
  "timeout_sources (g_idle_add src w) = timeout_sources w"
  "next_source_id (g_idle_add src w) = next_source_id w"
  "actions_enabled (g_idle_add src w) = actions_enabled w"
  "user_data_dir (g_idle_add src w) = user_data_dir w"
  "effects (g_idle_add src w) = effects w"
  by (simp_all add: g_idle_add_def)

lemma g_source_remove_fields [simp]:
  "db (g_source_remove tag w) = db w"
  "config (g_source_remove tag w) = config w"
  "db_pool (g_source_remove tag w) = db_pool w"
  "new_window (g_source_remove tag w) = new_window w"
  "num_windows (g_source_remove tag w) = num_windows w"
  "db_state (g_source_remove tag w) = db_state w"
  "db_timeout_id (g_source_remove tag w) = db_timeout_id w"
  "db_thread_cancellable (g_source_remove tag w) = db_thread_cancellable w"
  "num_database_update_active (g_source_remove tag w) = num_database_update_active w"
  "mutex (g_source_remove tag w) = mutex w"
  "is_shutting_down (g_source_remove tag w) = is_shutting_down w"
  "idle_sources (g_source_remove tag w) = idle_sources w"
  "timeout_sources (g_source_remove tag w) = filter (\<lambda>t. fst t \<noteq> tag) (timeout_sources w)"
  "next_source_id (g_source_remove tag w) = next_source_id w"
  "actions_enabled (g_source_remove tag w) = actions_enabled w"
  "user_data_dir (g_source_remove tag w) = user_data_dir w"
  "effects (g_source_remove tag w) = effects w"
  by (simp_all add: g_source_remove_def)

lemma g_cancellable_reset_fields [simp]:
  "db (g_cancellable_reset w) = db w"
  "config (g_cancellable_reset w) = config w"
  "db_pool (g_cancellable_reset w) = db_pool w"
  "new_window (g_cancellable_reset w) = new_window w"
  "num_windows (g_cancellable_reset w) = num_windows w"
  "db_state (g_cancellable_reset w) = db_state w"
  "db_timeout_id (g_cancellable_reset w) = db_timeout_id w"
  "db_thread_cancellable (g_cancellable_reset w) = False"
  "num_database_update_active (g_cancellable_reset w) = num_database_update_active w"
  "mutex (g_cancellable_reset w) = mutex w"
  "is_shutting_down (g_cancellable_reset w) = is_shutting_down w"
  "idle_sources (g_cancellable_reset w) = idle_sources w"
  "timeout_sources (g_cancellable_reset w) = timeout_sources w"
  "next_source_id (g_cancellable_reset w) = next_source_id w"
  "actions_enabled (g_cancellable_reset w) = actions_enabled w"
  "user_data_dir (g_cancellable_reset w) = user_data_dir w"
  "effects (g_cancellable_reset w) = effects w"
  by (simp_all add: g_cancellable_reset_def)

lemma g_cancellable_cancel_fields [simp]:
  "db (g_cancellable_cancel w) = db w"
  "config (g_cancellable_cancel w) = config w"
  "db_pool (g_cancellable_cancel w) = db_pool w"
  "new_window (g_cancellable_cancel w) = new_window w"
  "num_windows (g_cancellable_cancel w) = num_windows w"
  "db_state (g_cancellable_cancel w) = db_state w"
  "db_timeout_id (g_cancellable_cancel w) = db_timeout_id w"
  "db_thread_cancellable (g_cancellable_cancel w) = True"
  "num_database_update_active (g_cancellable_cancel w) = num_database_update_active w"
  "mutex (g_cancellable_cancel w) = mutex w"
  "is_shutting_down (g_cancellable_cancel w) = is_shutting_down w"
  "idle_sources (g_cancellable_cancel w) = idle_sources w"
  "timeout_sources (g_cancellable_cancel w) = timeout_sources w"
  "next_source_id (g_cancellable_cancel w) = next_source_id w"
  "actions_enabled (g_cancellable_cancel w) = actions_enabled w"
  "user_data_dir (g_cancellable_cancel w) = user_data_dir w"
  "effects (g_cancellable_cancel w) = effects w"
  by (simp_all add: g_cancellable_cancel_def)

lemma state_lock_fields [simp]:
  "db (fsearch_application_state_lock w) = db w"
  "config (fsearch_application_state_lock w) = config w"
  "db_pool (fsearch_application_state_lock w) = db_pool w"
  "new_window (fsearch_application_state_lock w) = new_window w"
  "num_windows (fsearch_application_state_lock w) = num_windows w"
  "db_state (fsearch_application_state_lock w) = db_state w"
  "db_timeout_id (fsearch_application_state_lock w) = db_timeout_id w"
  "db_thread_cancellable (fsearch_application_state_lock w) = db_thread_cancellable w"
  "num_database_update_active (fsearch_application_state_lock w) = num_database_update_active w"
  "mutex (fsearch_application_state_lock w) = True"
  "is_shutting_down (fsearch_application_state_lock w) = is_shutting_down w"
  "idle_sources (fsearch_application_state_lock w) = idle_sources w"
  "timeout_sources (fsearch_application_state_lock w) = timeout_sources w"
  "next_source_id (fsearch_application_state_lock w) = next_source_id w"
  "actions_enabled (fsearch_application_state_lock w) = actions_enabled w"
  "user_data_dir (fsearch_application_state_lock w) = user_data_dir w"
  "effects (fsearch_application_state_lock w) = effects w"
  by (simp_all add: fsearch_application_state_lock_def)

lemma state_unlock_fields [simp]:
  "db (fsearch_application_state_unlock w) = db w"
  "config (fsearch_application_state_unlock w) = config w"
  "db_pool (fsearch_application_state_unlock w) = db_pool w"
  "new_window (fsearch_application_state_unlock w) = new_window w"
  "num_windows (fsearch_application_state_unlock w) = num_windows w"
  "db_state (fsearch_application_state_unlock w) = db_state w"
  "db_timeout_id (fsearch_application_state_unlock w) = db_timeout_id w"
  "db_thread_cancellable (fsearch_application_state_unlock w) = db_thread_cancellable w"
  "num_database_update_active (fsearch_application_state_unlock w) = num_database_update_active w"
  "mutex (fsearch_application_state_unlock w) = False"
  "is_shutting_down (fsearch_application_state_unlock w) = is_shutting_down w"
  "idle_sources (fsearch_application_state_unlock w) = idle_sources w"
  "timeout_sources (fsearch_application_state_unlock w) = timeout_sources w"
  "next_source_id (fsearch_application_state_unlock w) = next_source_id w"
  "actions_enabled (fsearch_application_state_unlock w) = actions_enabled w"
  "user_data_dir (fsearch_application_state_unlock w) = user_data_dir w"
  "effects (fsearch_application_state_unlock w) = effects w"
  by (simp_all add: fsearch_application_state_unlock_def)

lemma action_set_enabled_fields [simp]:
  "db (action_set_enabled n b w) = db w"
  "config (action_set_enabled n b w) = config w"
  "db_pool (action_set_enabled n b w) = db_pool w"
  "new_window (action_set_enabled n b w) = new_window w"
  "num_windows (action_set_enabled n b w) = num_windows w"
  "db_state (action_set_enabled n b w) = db_state w"
  "db_timeout_id (action_set_enabled n b w) = db_timeout_id w"
  "db_thread_cancellable (action_set_enabled n b w) = db_thread_cancellable w"
  "num_database_update_active (action_set_enabled n b w) = num_database_update_active w"
  "mutex (action_set_enabled n b w) = mutex w"
  "is_shutting_down (action_set_enabled n b w) = is_shutting_down w"
  "idle_sources (action_set_enabled n b w) = idle_sources w"
  "timeout_sources (action_set_enabled n b w) = timeout_sources w"
  "next_source_id (action_set_enabled n b w) = next_source_id w"
  "actions_enabled (action_set_enabled n b w) = (case actions_enabled w n of None \<Rightarrow> actions_enabled w | Some _ \<Rightarrow> (actions_enabled w)(n \<mapsto> b))"
  "user_data_dir (action_set_enabled n b w) = user_data_dir w"
  "effects (action_set_enabled n b w) = effects w"
  by (simp_all add: action_set_enabled_def split: option.splits)

lemma prepare_windows_fields [simp]:
  "db (prepare_windows_for_db_update w) = db w"
  "config (prepare_windows_for_db_update w) = config w"
  "db_pool (prepare_windows_for_db_update w) = db_pool w"
  "new_window (prepare_windows_for_db_update w) = new_window w"
  "num_windows (prepare_windows_for_db_update w) = num_windows w"
  "db_state (prepare_windows_for_db_update w) = db_state w"
  "db_timeout_id (prepare_windows_for_db_update w) = db_timeout_id w"
  "db_thread_cancellable (prepare_windows_for_db_update w) = db_thread_cancellable w"
  "num_database_update_active (prepare_windows_for_db_update w) = num_database_update_active w"
  "mutex (prepare_windows_for_db_update w) = mutex w"
  "is_shutting_down (prepare_windows_for_db_update w) = is_shutting_down w"
  "idle_sources (prepare_windows_for_db_update w) = idle_sources w"
  "timeout_sources (prepare_windows_for_db_update w) = timeout_sources w"
  "next_source_id (prepare_windows_for_db_update w) = next_source_id w"
  "actions_enabled (prepare_windows_for_db_update w) = actions_enabled w"
  "user_data_dir (prepare_windows_for_db_update w) = user_data_dir w"
  "effects (prepare_windows_for_db_update w) = effects w @ [Call_prepare_windows_for_db_update]"
  by (simp_all add: prepare_windows_for_db_update_def emit_def)

lemma clear_local_db_fields [simp]:
  "db (clear_local_db p w) = db w"
  "config (clear_local_db p w) = config w"
  "db_pool (clear_local_db p w) = db_pool w"
  "new_window (clear_local_db p w) = new_window w"
  "num_windows (clear_local_db p w) = num_windows w"
  "db_state (clear_local_db p w) = db_state w"
  "db_timeout_id (clear_local_db p w) = db_timeout_id w"
  "db_thread_cancellable (clear_local_db p w) = db_thread_cancellable w"
  "num_database_update_active (clear_local_db p w) = num_database_update_active w"
  "mutex (clear_local_db p w) = mutex w"
  "is_shutting_down (clear_local_db p w) = is_shutting_down w"
  "idle_sources (clear_local_db p w) = idle_sources w"
  "timeout_sources (clear_local_db p w) = timeout_sources w"
  "next_source_id (clear_local_db p w) = next_source_id w"
  "actions_enabled (clear_local_db p w) = actions_enabled w"
  "user_data_dir (clear_local_db p w) = user_data_dir w"
  "effects (clear_local_db p w) = effects w @ (case p of None \<Rightarrow> [] | Some d \<Rightarrow> [Call_db_unref d])"
  by (simp_all add: clear_local_db_def emit_def split: option.splits)

lemma clear_app_db_fields [simp]:
  "db (clear_app_db w) = None"
  "config (clear_app_db w) = config w"
  "db_pool (clear_app_db w) = db_pool w"
  "new_window (clear_app_db w) = new_window w"
  "num_windows (clear_app_db w) = num_windows w"
  "db_state (clear_app_db w) = db_state w"
  "db_timeout_id (clear_app_db w) = db_timeout_id w"
  "db_thread_cancellable (clear_app_db w) = db_thread_cancellable w"
  "num_database_update_active (clear_app_db w) = num_database_update_active w"
  "mutex (clear_app_db w) = mutex w"
  "is_shutting_down (clear_app_db w) = is_shutting_down w"
  "idle_sources (clear_app_db w) = idle_sources w"
  "timeout_sources (clear_app_db w) = timeout_sources w"
  "next_source_id (clear_app_db w) = next_source_id w"
  "actions_enabled (clear_app_db w) = actions_enabled w"
  "user_data_dir (clear_app_db w) = user_data_dir w"
  "effects (clear_app_db w) = effects w @ Access Field_db Read (mutex w) # (case db w of None \<Rightarrow> [] | Some old \<Rightarrow> [Access Field_db Write (mutex w), Call_db_unref old])"
  by (simp_all add: clear_app_db_def access_def emit_def Let_def split: option.splits)

lemma notify_status_cb_fields [simp]:
  "db (database_notify_status_cb t w) = db w"
  "config (database_notify_status_cb t w) = config w"
  "db_pool (database_notify_status_cb t w) = db_pool w"
  "new_window (database_notify_status_cb t w) = new_window w"
  "num_windows (database_notify_status_cb t w) = num_windows w"
  "db_state (database_notify_status_cb t w) = db_state w"
  "db_timeout_id (database_notify_status_cb t w) = db_timeout_id w"
  "db_thread_cancellable (database_notify_status_cb t w) = db_thread_cancellable w"
  "num_database_update_active (database_notify_status_cb t w) = num_database_update_active w"
  "mutex (database_notify_status_cb t w) = mutex w"
  "is_shutting_down (database_notify_status_cb t w) = is_shutting_down w"
  "idle_sources (database_notify_status_cb t w) = idle_sources w @ (case t of None \<Rightarrow> [] | Some x \<Rightarrow> [On_database_notify_status x])"
  "timeout_sources (database_notify_status_cb t w) = timeout_sources w"
  "next_source_id (database_notify_status_cb t w) = next_source_id w"
  "actions_enabled (database_notify_status_cb t w) = actions_enabled w"
  "user_data_dir (database_notify_status_cb t w) = user_data_dir w"
  "effects (database_notify_status_cb t w) = effects w"
  by (simp_all add: database_notify_status_cb_def g_idle_add_def split: option.splits)

lemma g_thread_pool_push_fields [simp]:
  "db (g_thread_pool_push ctx w) = db w"
  "config (g_thread_pool_push ctx w) = config w"
  "db_pool (g_thread_pool_push ctx w) = map_option (\<lambda>p. p\<lparr>pool_queue := pool_queue p @ [ctx]\<rparr>) (db_pool w)"
  "new_window (g_thread_pool_push ctx w) = new_window w"
  "num_windows (g_thread_pool_push ctx w) = num_windows w"
  "db_state (g_thread_pool_push ctx w) = db_state w"
  "db_timeout_id (g_thread_pool_push ctx w) = db_timeout_id w"
  "db_thread_cancellable (g_thread_pool_push ctx w) = db_thread_cancellable w"
  "num_database_update_active (g_thread_pool_push ctx w) = num_database_update_active w"
  "mutex (g_thread_pool_push ctx w) = mutex w"
  "is_shutting_down (g_thread_pool_push ctx w) = is_shutting_down w"
  "idle_sources (g_thread_pool_push ctx w) = idle_sources w"
  "timeout_sources (g_thread_pool_push ctx w) = timeout_sources w"
  "next_source_id (g_thread_pool_push ctx w) = next_source_id w"
  "actions_enabled (g_thread_pool_push ctx w) = actions_enabled w"
  "user_data_dir (g_thread_pool_push ctx w) = user_data_dir w"
  "effects (g_thread_pool_push ctx w) = effects w @ (case db_pool w of None \<Rightarrow> [] | Some _ \<Rightarrow> [Pool_push ctx])"
  by (simp_all add: g_thread_pool_push_def emit_def split: option.splits)

lemma on_database_update_finished_fields [simp]:
  "db (on_database_update_finished user_data w) = (if is_shutting_down w \<or> db_thread_cancellable w then db w else user_data)"
  "config (on_database_update_finished user_data w) = config w"
  "db_pool (on_database_update_finished user_data w) = db_pool w"
  "new_window (on_database_update_finished user_data w) = new_window w"
  "num_windows (on_database_update_finished user_data w) = num_windows w"
  "db_state (on_database_update_finished user_data w) = db_state w"
  "db_timeout_id (on_database_update_finished user_data w) = db_timeout_id w"
  "db_thread_cancellable (on_database_update_finished user_data w) = (if is_shutting_down w then db_thread_cancellable w else False)"
  "num_database_update_active (on_database_update_finished user_data w) = (if is_shutting_down w then num_database_update_active w else num_database_update_active w - 1)"
  "mutex (on_database_update_finished user_data w) = (if is_shutting_down w then mutex w else False)"
  "is_shutting_down (on_database_update_finished user_data w) = is_shutting_down w"
  "idle_sources (on_database_update_finished user_data w) = idle_sources w"
  "timeout_sources (on_database_update_finished user_data w) = timeout_sources w"
  "next_source_id (on_database_update_finished user_data w) = next_source_id w"
  "actions_enabled (on_database_update_finished user_data w) = (if \<not> is_shutting_down w \<and> num_database_update_active w - 1 = 0
      then actions_enabled (action_set_enabled ''cancel_update_database'' False
             (action_set_enabled ''update_database'' True w))
      else actions_enabled w)"
  "user_data_dir (on_database_update_finished user_data w) = user_data_dir w"
  "effects (on_database_update_finished user_data w) = effects w @
     (if is_shutting_down w then (case user_data of None \<Rightarrow> [] | Some d \<Rightarrow> [Call_db_unref d])
      else
        (if db_thread_cancellable w
         then (case user_data of None \<Rightarrow> [] | Some d \<Rightarrow> [Call_db_unref d])
         else [Call_prepare_windows_for_db_update, Access Field_db Read True] @
              (case db w of None \<Rightarrow> [] | Some old \<Rightarrow> [Access Field_db Write True, Call_db_unref old]) @
              [Access Field_db Write True]) @
        [Access Field_num_database_update_active Read True,
         Access Field_num_database_update_active Write True,
         Access Field_num_database_update_active Read True,
         Signal_emit FSEARCH_SIGNAL_DATABASE_UPDATE_FINISHED])"
  by (simp_all add: on_database_update_finished_def g_cancellable_is_cancelled_def split: option.splits)

lemma enqueue_fields [simp]:
  "db (database_scan_or_load_enqueue act w) = db w"
  "config (database_scan_or_load_enqueue act w) = config w"
  "db_pool (database_scan_or_load_enqueue act w) = map_option (\<lambda>p. p\<lparr>pool_queue := pool_queue p @ [new_context act]\<rparr>) (db_pool w)"
  "new_window (database_scan_or_load_enqueue act w) = new_window w"
  "num_windows (database_scan_or_load_enqueue act w) = num_windows w"
  "db_state (database_scan_or_load_enqueue act w) = db_state w"
  "db_timeout_id (database_scan_or_load_enqueue act w) = db_timeout_id w"
  "db_thread_cancellable (database_scan_or_load_enqueue act w) = False"
  "num_database_update_active (database_scan_or_load_enqueue act w) = num_database_update_active w + 1"
  "mutex (database_scan_or_load_enqueue act w) = mutex w"
  "is_shutting_down (database_scan_or_load_enqueue act w) = is_shutting_down w"
  "idle_sources (database_scan_or_load_enqueue act w) = idle_sources w"
  "timeout_sources (database_scan_or_load_enqueue act w) = timeout_sources w"
  "next_source_id (database_scan_or_load_enqueue act w) = next_source_id w"
  "actions_enabled (database_scan_or_load_enqueue act w) = actions_enabled (action_set_enabled ''cancel_update_database'' True
        (action_set_enabled ''update_database'' False w))"
  "user_data_dir (database_scan_or_load_enqueue act w) = user_data_dir w"
  "effects (database_scan_or_load_enqueue act w) = effects w @
       [Access Field_num_database_update_active Read (mutex w),
        Access Field_num_database_update_active Write (mutex w)] @
       (case db_pool w of None \<Rightarrow> [] | Some _ \<Rightarrow> [Pool_push (new_context act)])"
  by (simp_all add: database_scan_or_load_enqueue_def)

lemma database_update_finished_cb_fields [simp]:
  "db (database_update_finished_cb user_data w) = db w"
  "config (database_update_finished_cb user_data w) = config w"
  "db_pool (database_update_finished_cb user_data w) = db_pool w"
  "new_window (database_update_finished_cb user_data w) = new_window w"
  "num_windows (database_update_finished_cb user_data w) = num_windows w"
  "db_state (database_update_finished_cb user_data w) = FSEARCH_DATABASE_STATE_IDLE"
  "db_timeout_id (database_update_finished_cb user_data w) = db_timeout_id w"
  "db_thread_cancellable (database_update_finished_cb user_data w) = db_thread_cancellable w"
  "num_database_update_active (database_update_finished_cb user_data w) = num_database_update_active w"
  "mutex (database_update_finished_cb user_data w) = mutex w"
  "is_shutting_down (database_update_finished_cb user_data w) = is_shutting_down w"
  "idle_sources (database_update_finished_cb user_data w) = idle_sources w @ [On_database_update_finished user_data]"
  "timeout_sources (database_update_finished_cb user_data w) = timeout_sources w"
  "next_source_id (database_update_finished_cb user_data w) = next_source_id w"
  "actions_enabled (database_update_finished_cb user_data w) = actions_enabled w"
  "user_data_dir (database_update_finished_cb user_data w) = user_data_dir w"
  "effects (database_update_finished_cb user_data w) = effects w"
  by (simp_all add: database_update_finished_cb_def)

lemma database_load_started_cb_fields [simp]:
  "db (database_load_started_cb w) = db w"
  "config (database_load_started_cb w) = config w"
  "db_pool (database_load_started_cb w) = db_pool w"
  "new_window (database_load_started_cb w) = new_window w"
  "num_windows (database_load_started_cb w) = num_windows w"
  "db_state (database_load_started_cb w) = FSEARCH_DATABASE_STATE_LOADING"
  "db_timeout_id (database_load_started_cb w) = db_timeout_id w"
  "db_thread_cancellable (database_load_started_cb w) = db_thread_cancellable w"
  "num_database_update_active (database_load_started_cb w) = num_database_update_active w"
  "mutex (database_load_started_cb w) = mutex w"
  "is_shutting_down (database_load_started_cb w) = is_shutting_down w"
  "idle_sources (database_load_started_cb w) = idle_sources w @ [On_database_load_started]"
  "timeout_sources (database_load_started_cb w) = timeout_sources w"
  "next_source_id (database_load_started_cb w) = next_source_id w"
  "actions_enabled (database_load_started_cb w) = actions_enabled w"
  "user_data_dir (database_load_started_cb w) = user_data_dir w"
  "effects (database_load_started_cb w) = effects w"
  by (simp_all add: database_load_started_cb_def)

lemma database_scan_started_cb_fields [simp]:
  "db (database_scan_started_cb w) = db w"
  "config (database_scan_started_cb w) = config w"
  "db_pool (database_scan_started_cb w) = db_pool w"
  "new_window (database_scan_started_cb w) = new_window w"
  "num_windows (database_scan_started_cb w) = num_windows w"
  "db_state (database_scan_started_cb w) = FSEARCH_DATABASE_STATE_SCANNING"
  "db_timeout_id (database_scan_started_cb w) = db_timeout_id w"
  "db_thread_cancellable (database_scan_started_cb w) = db_thread_cancellable w"
  "num_database_update_active (database_scan_started_cb w) = num_database_update_active w"
  "mutex (database_scan_started_cb w) = mutex w"
  "is_shutting_down (database_scan_started_cb w) = is_shutting_down w"
  "idle_sources (database_scan_started_cb w) = idle_sources w @ [On_database_scan_started]"
  "timeout_sources (database_scan_started_cb w) = timeout_sources w"
  "next_source_id (database_scan_started_cb w) = next_source_id w"
  "actions_enabled (database_scan_started_cb w) = actions_enabled w"
  "user_data_dir (database_scan_started_cb w) = user_data_dir w"
  "effects (database_scan_started_cb w) = effects w"
  by (simp_all add: database_scan_started_cb_def)

lemma on_database_load_started_fields [simp]:
  "db (on_database_load_started w) = db w"
  "config (on_database_load_started w) = config w"
  "db_pool (on_database_load_started w) = db_pool w"
  "new_window (on_database_load_started w) = new_window w"
  "num_windows (on_database_load_started w) = num_windows w"
  "db_state (on_database_load_started w) = db_state w"
  "db_timeout_id (on_database_load_started w) = db_timeout_id w"
  "db_thread_cancellable (on_database_load_started w) = db_thread_cancellable w"
  "num_database_update_active (on_database_load_started w) = num_database_update_active w"
  "mutex (on_database_load_started w) = mutex w"
  "is_shutting_down (on_database_load_started w) = is_shutting_down w"
  "idle_sources (on_database_load_started w) = idle_sources w"
  "timeout_sources (on_database_load_started w) = timeout_sources w"
  "next_source_id (on_database_load_started w) = next_source_id w"
  "actions_enabled (on_database_load_started w) = actions_enabled w"
  "user_data_dir (on_database_load_started w) = user_data_dir w"
  "effects (on_database_load_started w) = effects w @ [Signal_emit FSEARCH_SIGNAL_DATABASE_LOAD_STARTED]"
  by (simp_all add: on_database_load_started_def)

lemma on_database_scan_started_fields [simp]:
  "db (on_database_scan_started w) = db w"
  "config (on_database_scan_started w) = config w"
  "db_pool (on_database_scan_started w) = db_pool w"
  "new_window (on_database_scan_started w) = new_window w"
  "num_windows (on_database_scan_started w) = num_windows w"
  "db_state (on_database_scan_started w) = db_state w"
  "db_timeout_id (on_database_scan_started w) = db_timeout_id w"
  "db_thread_cancellable (on_database_scan_started w) = db_thread_cancellable w"
  "num_database_update_active (on_database_scan_started w) = num_database_update_active w"
  "mutex (on_database_scan_started w) = mutex w"
  "is_shutting_down (on_database_scan_started w) = is_shutting_down w"
  "idle_sources (on_database_scan_started w) = idle_sources w"
  "timeout_sources (on_database_scan_started w) = timeout_sources w"
  "next_source_id (on_database_scan_started w) = next_source_id w"
  "actions_enabled (on_database_scan_started w) = actions_enabled w"
  "user_data_dir (on_database_scan_started w) = user_data_dir w"
  "effects (on_database_scan_started w) = effects w @ [Signal_emit FSEARCH_SIGNAL_DATABASE_SCAN_STARTED]"
  by (simp_all add: on_database_scan_started_def)

lemma on_database_notify_status_fields [simp]:
  "db (on_database_notify_status text w) = db w"
  "config (on_database_notify_status text w) = config w"
  "db_pool (on_database_notify_status text w) = db_pool w"
  "new_window (on_database_notify_status text w) = new_window w"
  "num_windows (on_database_notify_status text w) = num_windows w"
  "db_state (on_database_notify_status text w) = db_state w"
  "db_timeout_id (on_database_notify_status text w) = db_timeout_id w"
  "db_thread_cancellable (on_database_notify_status text w) = db_thread_cancellable w"
  "num_database_update_active (on_database_notify_status text w) = num_database_update_active w"
  "mutex (on_database_notify_status text w) = mutex w"
  "is_shutting_down (on_database_notify_status text w) = is_shutting_down w"
  "idle_sources (on_database_notify_status text w) = idle_sources w"
  "timeout_sources (on_database_notify_status text w) = timeout_sources w"
  "next_source_id (on_database_notify_status text w) = next_source_id w"
  "actions_enabled (on_database_notify_status text w) = actions_enabled w"
  "user_data_dir (on_database_notify_status text w) = user_data_dir w"
  "effects (on_database_notify_status text w) = effects w @ replicate (num_windows w) (Call_set_database_index_progress text)"
  by (simp_all add: on_database_notify_status_def stmts_replicate_emit)

lemma report_status_fields [simp]:
  "db (report_status r has_cb w) = db w"
  "config (report_status r has_cb w) = config w"
  "db_pool (report_status r has_cb w) = db_pool w"
  "new_window (report_status r has_cb w) = new_window w"
  "num_windows (report_status r has_cb w) = num_windows w"
  "db_state (report_status r has_cb w) = db_state w"
  "db_timeout_id (report_status r has_cb w) = db_timeout_id w"
  "db_thread_cancellable (report_status r has_cb w) = db_thread_cancellable w"
  "num_database_update_active (report_status r has_cb w) = num_database_update_active w"
  "mutex (report_status r has_cb w) = mutex w"
  "is_shutting_down (report_status r has_cb w) = is_shutting_down w"
  "idle_sources (report_status r has_cb w) = idle_sources w @ (if has_cb then map On_database_notify_status (List.map_filter (\<lambda>t. t) (status_texts r)) else [])"
  "timeout_sources (report_status r has_cb w) = timeout_sources w"
  "next_source_id (report_status r has_cb w) = next_source_id w"
  "actions_enabled (report_status r has_cb w) = actions_enabled w"
  "user_data_dir (report_status r has_cb w) = user_data_dir w"
  "effects (report_status r has_cb w) = effects w"
  by (simp_all add: report_status_eq)

lemma db_scan_fields [simp]:
  "db (db_scan r d has_cb w) = db w"
  "config (db_scan r d has_cb w) = config w"
  "db_pool (db_scan r d has_cb w) = db_pool w"
  "new_window (db_scan r d has_cb w) = new_window w"
  "num_windows (db_scan r d has_cb w) = num_windows w"
  "db_state (db_scan r d has_cb w) = db_state w"
  "db_timeout_id (db_scan r d has_cb w) = db_timeout_id w"
  "db_thread_cancellable (db_scan r d has_cb w) = db_thread_cancellable w"
  "num_database_update_active (db_scan r d has_cb w) = num_database_update_active w"
  "mutex (db_scan r d has_cb w) = mutex w"
  "is_shutting_down (db_scan r d has_cb w) = is_shutting_down w"
  "idle_sources (db_scan r d has_cb w) = idle_sources w @ (if has_cb then map On_database_notify_status (List.map_filter (\<lambda>t. t) (status_texts r)) else [])"
  "timeout_sources (db_scan r d has_cb w) = timeout_sources w"
  "next_source_id (db_scan r d has_cb w) = next_source_id w"
  "actions_enabled (db_scan r d has_cb w) = actions_enabled w"
  "user_data_dir (db_scan r d has_cb w) = user_data_dir w"
  "effects (db_scan r d has_cb w) = effects w @ [Call_db_scan d has_cb]"
  by (simp_all add: db_scan_def db_scan_call_def)

lemma db_load_fields [simp]:
  "db (db_load r d file_path has_cb w) = db w"
  "config (db_load r d file_path has_cb w) = config w"
  "db_pool (db_load r d file_path has_cb w) = db_pool w"
  "new_window (db_load r d file_path has_cb w) = new_window w"
  "num_windows (db_load r d file_path has_cb w) = num_windows w"
  "db_state (db_load r d file_path has_cb w) = db_state w"
  "db_timeout_id (db_load r d file_path has_cb w) = db_timeout_id w"
  "db_thread_cancellable (db_load r d file_path has_cb w) = db_thread_cancellable w"
  "num_database_update_active (db_load r d file_path has_cb w) = num_database_update_active w"
  "mutex (db_load r d file_path has_cb w) = mutex w"
  "is_shutting_down (db_load r d file_path has_cb w) = is_shutting_down w"
  "idle_sources (db_load r d file_path has_cb w) = idle_sources w @ (if has_cb then map On_database_notify_status (List.map_filter (\<lambda>t. t) (status_texts r)) else [])"
  "timeout_sources (db_load r d file_path has_cb w) = timeout_sources w"
  "next_source_id (db_load r d file_path has_cb w) = next_source_id w"
  "actions_enabled (db_load r d file_path has_cb w) = actions_enabled w"
  "user_data_dir (db_load r d file_path has_cb w) = user_data_dir w"
  "effects (db_load r d file_path has_cb w) = effects w @ [Call_db_load d file_path has_cb]"
  by (simp_all add: db_load_def db_load_call_def)

lemma database_scan_and_save_fields [simp]:
  "db (database_scan_and_save r d w) = db w"
  "config (database_scan_and_save r d w) = config w"
  "db_pool (database_scan_and_save r d w) = db_pool w"
  "new_window (database_scan_and_save r d w) = new_window w"
  "num_windows (database_scan_and_save r d w) = num_windows w"
  "db_state (database_scan_and_save r d w) = db_state w"
  "db_timeout_id (database_scan_and_save r d w) = db_timeout_id w"
  "db_thread_cancellable (database_scan_and_save r d w) = db_thread_cancellable w"
  "num_database_update_active (database_scan_and_save r d w) = num_database_update_active w"
  "mutex (database_scan_and_save r d w) = mutex w"
  "is_shutting_down (database_scan_and_save r d w) = is_shutting_down w"
  "idle_sources (database_scan_and_save r d w) = idle_sources w @ (if show_indexing_status (config w) then map On_database_notify_status (List.map_filter (\<lambda>t. t) (status_texts r)) else []) @
       (if succeeded r \<and> \<not> db_thread_cancellable w \<and> show_indexing_status (config w)
        then [On_database_notify_status saving_text] else [])"
  "timeout_sources (database_scan_and_save r d w) = timeout_sources w"
  "next_source_id (database_scan_and_save r d w) = next_source_id w"
  "actions_enabled (database_scan_and_save r d w) = actions_enabled w"
  "user_data_dir (database_scan_and_save r d w) = user_data_dir w"
  "effects (database_scan_and_save r d w) = effects w @ Call_db_scan d (show_indexing_status (config w)) #
       (if succeeded r \<and> \<not> db_thread_cancellable w
        then [Call_db_save d (user_data_dir w @ ''/fsearch'')] else [])"
  by (simp_all add: database_scan_and_save_def fsearch_application_get_database_dir_def g_cancellable_is_cancelled_def Let_def)

lemma database_load_fields [simp]:
  "db (database_load r d w) = db w"
  "config (database_load r d w) = config w"
  "db_pool (database_load r d w) = db_pool w"
  "new_window (database_load r d w) = new_window w"
  "num_windows (database_load r d w) = num_windows w"
  "db_state (database_load r d w) = db_state w"
  "db_timeout_id (database_load r d w) = db_timeout_id w"
  "db_thread_cancellable (database_load r d w) = db_thread_cancellable w"
  "num_database_update_active (database_load r d w) = num_database_update_active w"
  "mutex (database_load r d w) = mutex w"
  "is_shutting_down (database_load r d w) = is_shutting_down w"
  "idle_sources (database_load r d w) = idle_sources w @ (if show_indexing_status (config w) then map On_database_notify_status (List.map_filter (\<lambda>t. t) (status_texts r)) else []) @
       (if \<not> succeeded r \<and> \<not> update_database_on_launch (config w)
        then [On_database_scan_enqueue] else [])"
  "timeout_sources (database_load r d w) = timeout_sources w"
  "next_source_id (database_load r d w) = next_source_id w"
  "actions_enabled (database_load r d w) = actions_enabled w"
  "user_data_dir (database_load r d w) = user_data_dir w"
  "effects (database_load r d w) = effects w @
       [Call_db_load d (user_data_dir w @ ''/fsearch/fsearch.db'') (show_indexing_status (config w))]"
  by (simp_all add: database_load_def fsearch_application_get_database_file_path_def Let_def)

lemma database_scan_and_save_call_fields [simp]:
  "db (database_scan_and_save_call d w) = db w"
  "config (database_scan_and_save_call d w) = config w"
  "db_pool (database_scan_and_save_call d w) = db_pool w"
  "new_window (database_scan_and_save_call d w) = new_window w"
  "num_windows (database_scan_and_save_call d w) = num_windows w"
  "db_state (database_scan_and_save_call d w) = db_state w"
  "db_timeout_id (database_scan_and_save_call d w) = db_timeout_id w"
  "db_thread_cancellable (database_scan_and_save_call d w) = db_thread_cancellable w"
  "num_database_update_active (database_scan_and_save_call d w) = num_database_update_active w"
  "mutex (database_scan_and_save_call d w) = mutex w"
  "is_shutting_down (database_scan_and_save_call d w) = is_shutting_down w"
  "idle_sources (database_scan_and_save_call d w) = idle_sources w"
  "timeout_sources (database_scan_and_save_call d w) = timeout_sources w"
  "next_source_id (database_scan_and_save_call d w) = next_source_id w"
  "actions_enabled (database_scan_and_save_call d w) = actions_enabled w"
  "user_data_dir (database_scan_and_save_call d w) = user_data_dir w"
  "effects (database_scan_and_save_call d w) = effects w @ [Call_db_scan d (show_indexing_status (config w))]"
  by (simp_all add: database_scan_and_save_call_def db_scan_call_def)

lemma database_load_call_fields [simp]:
  "db (database_load_call d w) = db w"
  "config (database_load_call d w) = config w"
  "db_pool (database_load_call d w) = db_pool w"
  "new_window (database_load_call d w) = new_window w"
  "num_windows (database_load_call d w) = num_windows w"
  "db_state (database_load_call d w) = db_state w"
  "db_timeout_id (database_load_call d w) = db_timeout_id w"
  "db_thread_cancellable (database_load_call d w) = db_thread_cancellable w"
  "num_database_update_active (database_load_call d w) = num_database_update_active w"
  "mutex (database_load_call d w) = mutex w"
  "is_shutting_down (database_load_call d w) = is_shutting_down w"
  "idle_sources (database_load_call d w) = idle_sources w"
  "timeout_sources (database_load_call d w) = timeout_sources w"
  "next_source_id (database_load_call d w) = next_source_id w"
  "actions_enabled (database_load_call d w) = actions_enabled w"
  "user_data_dir (database_load_call d w) = user_data_dir w"
  "effects (database_load_call d w) = effects w @
       [Call_db_load d (user_data_dir w @ ''/fsearch/fsearch.db'') (show_indexing_status (config w))]"
  by (simp_all add: database_load_call_def db_load_call_def fsearch_application_get_database_file_path_def)

lemma database_scan_and_save_return_fields [simp]:
  "db (database_scan_and_save_return r d has_cb w) = db w"
  "config (database_scan_and_save_return r d has_cb w) = config w"
  "db_pool (database_scan_and_save_return r d has_cb w) = db_pool w"
  "new_window (database_scan_and_save_return r d has_cb w) = new_window w"
  "num_windows (database_scan_and_save_return r d has_cb w) = num_windows w"
  "db_state (database_scan_and_save_return r d has_cb w) = db_state w"
  "db_timeout_id (database_scan_and_save_return r d has_cb w) = db_timeout_id w"
  "db_thread_cancellable (database_scan_and_save_return r d has_cb w) = db_thread_cancellable w"
  "num_database_update_active (database_scan_and_save_return r d has_cb w) = num_database_update_active w"
  "mutex (database_scan_and_save_return r d has_cb w) = mutex w"
  "is_shutting_down (database_scan_and_save_return r d has_cb w) = is_shutting_down w"
  "idle_sources (database_scan_and_save_return r d has_cb w) = idle_sources w @ (if has_cb then map On_database_notify_status (List.map_filter (\<lambda>t. t) (status_texts r)) else []) @
       (if succeeded r \<and> \<not> db_thread_cancellable w \<and> show_indexing_status (config w)
        then [On_database_notify_status saving_text] else [])"
  "timeout_sources (database_scan_and_save_return r d has_cb w) = timeout_sources w"
  "next_source_id (database_scan_and_save_return r d has_cb w) = next_source_id w"
  "actions_enabled (database_scan_and_save_return r d has_cb w) = actions_enabled w"
  "user_data_dir (database_scan_and_save_return r d has_cb w) = user_data_dir w"
  "effects (database_scan_and_save_return r d has_cb w) = effects w @
       (if succeeded r \<and> \<not> db_thread_cancellable w
        then [Call_db_save d (user_data_dir w @ ''/fsearch'')] else [])"
  by (simp_all add: database_scan_and_save_return_def fsearch_application_get_database_dir_def g_cancellable_is_cancelled_def Let_def)

lemma database_load_return_fields [simp]:
  "db (database_load_return r has_cb w) = db w"
  "config (database_load_return r has_cb w) = config w"
  "db_pool (database_load_return r has_cb w) = db_pool w"
  "new_window (database_load_return r has_cb w) = new_window w"
  "num_windows (database_load_return r has_cb w) = num_windows w"
  "db_state (database_load_return r has_cb w) = db_state w"
  "db_timeout_id (database_load_return r has_cb w) = db_timeout_id w"
  "db_thread_cancellable (database_load_return r has_cb w) = db_thread_cancellable w"
  "num_database_update_active (database_load_return r has_cb w) = num_database_update_active w"
  "mutex (database_load_return r has_cb w) = mutex w"
  "is_shutting_down (database_load_return r has_cb w) = is_shutting_down w"
  "idle_sources (database_load_return r has_cb w) = idle_sources w @ (if has_cb then map On_database_notify_status (List.map_filter (\<lambda>t. t) (status_texts r)) else []) @
       (if \<not> succeeded r \<and> \<not> update_database_on_launch (config w)
        then [On_database_scan_enqueue] else [])"
  "timeout_sources (database_load_return r has_cb w) = timeout_sources w"
  "next_source_id (database_load_return r has_cb w) = next_source_id w"
  "actions_enabled (database_load_return r has_cb w) = actions_enabled w"
  "user_data_dir (database_load_return r has_cb w) = user_data_dir w"
  "effects (database_load_return r has_cb w) = effects w"
  by (simp_all add: database_load_return_def fsearch_application_get_database_file_path_def Let_def)

lemma database_pool_func_begin_fields [simp]:
  "db (database_pool_func_begin ctx d w) = db w"
  "config (database_pool_func_begin ctx d w) = config w"
  "db_pool (database_pool_func_begin ctx d w) = db_pool w"
  "new_window (database_pool_func_begin ctx d w) = new_window w"
  "num_windows (database_pool_func_begin ctx d w) = num_windows w"
  "db_state (database_pool_func_begin ctx d w) = (case started_cb ctx of
        None \<Rightarrow> db_state w
      | Some Database_scan_started_cb \<Rightarrow> FSEARCH_DATABASE_STATE_SCANNING
      | Some Database_load_started_cb \<Rightarrow> FSEARCH_DATABASE_STATE_LOADING)"
  "db_timeout_id (database_pool_func_begin ctx d w) = db_timeout_id w"
  "db_thread_cancellable (database_pool_func_begin ctx d w) = db_thread_cancellable w"
  "num_database_update_active (database_pool_func_begin ctx d w) = num_database_update_active w"
  "mutex (database_pool_func_begin ctx d w) = False"
  "is_shutting_down (database_pool_func_begin ctx d w) = is_shutting_down w"
  "idle_sources (database_pool_func_begin ctx d w) = idle_sources w @
       (case started_cb ctx of
          None \<Rightarrow> []
        | Some Database_scan_started_cb \<Rightarrow> [On_database_scan_started]
        | Some Database_load_started_cb \<Rightarrow> [On_database_load_started])"
  "timeout_sources (database_pool_func_begin ctx d w) = timeout_sources w"
  "next_source_id (database_pool_func_begin ctx d w) = next_source_id w"
  "actions_enabled (database_pool_func_begin ctx d w) = actions_enabled w"
  "user_data_dir (database_pool_func_begin ctx d w) = user_data_dir w"
  "effects (database_pool_func_begin ctx d w) = effects w @ Call_db_new d #
       (case update_func ctx of
          Database_scan_and_save \<Rightarrow> [Call_db_scan d (show_indexing_status (config w))]
        | Database_load \<Rightarrow>
            [Call_db_load d (user_data_dir w @ ''/fsearch/fsearch.db'')
               (show_indexing_status (config w))])"
  by (simp_all add: database_pool_func_begin_def
        split: option.splits started_cb_ptr.splits update_func_ptr.splits)

lemma database_auto_update_init_fields [simp]:
  "db (database_auto_update_init w) = db w"
  "config (database_auto_update_init w) = config w"
  "db_pool (database_auto_update_init w) = db_pool w"
  "new_window (database_auto_update_init w) = new_window w"
  "num_windows (database_auto_update_init w) = num_windows w"
  "db_state (database_auto_update_init w) = db_state w"
  "db_timeout_id (database_auto_update_init w) = (if update_database_every (config w) then next_source_id w else 0)"
  "db_thread_cancellable (database_auto_update_init w) = db_thread_cancellable w"
  "num_database_update_active (database_auto_update_init w) = num_database_update_active w"
  "mutex (database_auto_update_init w) = mutex w"
  "is_shutting_down (database_auto_update_init w) = is_shutting_down w"
  "idle_sources (database_auto_update_init w) = idle_sources w"
  "timeout_sources (database_auto_update_init w) = (if db_timeout_id w \<noteq> 0
      then filter (\<lambda>t. fst t \<noteq> db_timeout_id w) (timeout_sources w)
      else timeout_sources w) @
     (if update_database_every (config w)
      then [(next_source_id w, auto_update_seconds (config w))] else [])"
  "next_source_id (database_auto_update_init w) = (if update_database_every (config w) then Suc (next_source_id w) else next_source_id w)"
  "actions_enabled (database_auto_update_init w) = actions_enabled w"
  "user_data_dir (database_auto_update_init w) = user_data_dir w"
  "effects (database_auto_update_init w) = effects w"
  by (simp_all add: database_auto_update_init_def g_timeout_add_seconds_def Let_def)


lemma unat_auto_update_seconds:
  "unat (auto_update_seconds c) =
     max 60 ((unat (update_database_every_hours c) * 3600 +
              unat (update_database_every_minutes c) * 60) mod 2 ^ 32)"
proof -
  let ?s = "update_database_every_hours c * 3600 + update_database_every_minutes c * 60"
  have s: "unat ?s = (unat (update_database_every_hours c) * 3600 +
                      unat (update_database_every_minutes c) * 60) mod 2 ^ 32"
    by (simp add: unat_word_ariths mod_simps)
  have "unat (auto_update_seconds c) = max 60 (unat ?s)"
    by (simp add: auto_update_seconds_def Let_def word_less_nat_alt max_def)
  with s show ?thesis by simp
qed

subsection \<open>Tasks, completions and the view of the invariants\<close>

lemma map_filter_append: "List.map_filter f (xs @ ys) = List.map_filter f xs @ List.map_filter f ys"
  by (simp add: List.map_filter_def)

lemmas tasks_defs = pushed_tasks_def started_tasks_def map_filter_append

lemma completions_append [simp]: "completions (xs @ ys) = completions xs @ completions ys"
  by (simp add: completions_def map_filter_append)

lemma completions_simps [simp]:
  "completions [] = []"
  "completions (On_database_update_finished d # xs) = d # completions xs"
  "completions (On_database_load_started # xs) = completions xs"
  "completions (On_database_scan_started # xs) = completions xs"
  "completions (On_database_scan_enqueue # xs) = completions xs"
  "completions (On_database_notify_status t # xs) = completions xs"
  by (simp_all add: completions_def)

lemma completions_notify [simp]: "completions (map On_database_notify_status ts) = []"
  by (induction ts) simp_all

lemma task_ok_new_context [simp]: "task_ok (new_context act)"
  by (cases act) (simp_all add: task_ok_def new_context_def)

lemma pool_inv_view: "coord_view w' = coord_view w \<Longrightarrow> pool_inv w' = pool_inv w"
  by (cases "db_pool w") (simp_all add: coord_view_def pool_inv_def)

lemma in_flight_view: "coord_view w' = coord_view w \<Longrightarrow> in_flight w' = in_flight w"
  by (simp add: coord_view_def in_flight_def)

lemma counter_inv_view: "coord_view w' = coord_view w \<Longrightarrow> counter_inv w' = counter_inv w"
  using pool_inv_view [of w' w] in_flight_view [of w' w]
  by (simp add: counter_inv_def) (simp add: coord_view_def)

lemma view_auto_update_init: "coord_view (database_auto_update_init w) = coord_view w"
  by (simp add: coord_view_def tasks_defs)

lemma view_cancellable:
  "coord_view (g_cancellable_reset w) = coord_view w"
  "coord_view (g_cancellable_cancel w) = coord_view w"
  by (simp_all add: coord_view_def tasks_defs)

lemma view_idle_callbacks:
  "coord_view (on_database_load_started w) = coord_view w"
  "coord_view (on_database_scan_started w) = coord_view w"
  "coord_view (on_database_notify_status text w) = coord_view w"
  by (simp_all add: coord_view_def tasks_defs List.map_filter_def)

lemma view_updates:
  "coord_view (w\<lparr>config := c\<rparr>) = coord_view w"
  "coord_view (w\<lparr>new_window := b\<rparr>) = coord_view w"
  "coord_view (w\<lparr>num_windows := n\<rparr>) = coord_view w"
  by (simp_all add: coord_view_def tasks_defs)

lemma view_pool_func_begin: "coord_view (database_pool_func_begin ctx d w) = coord_view w"
  by (simp add: coord_view_def tasks_defs
        split: option.splits started_cb_ptr.splits update_func_ptr.splits)

lemma view_scan_and_save: "coord_view (database_scan_and_save r d w) = coord_view w"
  by (simp add: coord_view_def tasks_defs)

lemma view_load: "coord_view (database_load r d w) = coord_view w"
  by (simp add: coord_view_def tasks_defs)

lemma view_scan_and_save_return:
  "coord_view (database_scan_and_save_return r d has_cb w) = coord_view w"
  by (simp add: coord_view_def tasks_defs)

lemma view_load_return: "coord_view (database_load_return r has_cb w) = coord_view w"
  by (simp add: coord_view_def tasks_defs)

lemmas neutral_views = view_auto_update_init view_cancellable view_idle_callbacks view_updates
  view_pool_func_begin view_scan_and_save view_load view_scan_and_save_return view_load_return

lemmas neutral_pool_inv [simp] = neutral_views [THEN pool_inv_view]
lemmas neutral_counter_inv [simp] = neutral_views [THEN counter_inv_view]
lemmas neutral_in_flight [simp] = neutral_views [THEN in_flight_view]

subsection \<open>The pool invariant is kept by every step\<close>

lemma pool_inv_enqueue [simp]:
  "pool_inv w \<Longrightarrow> pool_inv (database_scan_or_load_enqueue act w)"
  by (cases "db_pool w") (simp_all add: pool_inv_def tasks_defs)

lemma pool_inv_update_finished [simp]:
  "pool_inv (on_database_update_finished user_data w) = pool_inv w"
  by (simp add: pool_inv_def tasks_defs split: option.splits)

lemma pool_inv_activate_action:
  "pool_inv w \<Longrightarrow> pool_inv (g_action_group_activate_action action_name w)"
  by (simp add: g_action_group_activate_action_def action_update_database_activated_def
        action_cancel_update_database_activated_def action_new_window_activated_def)

lemma pool_inv_activate:
  "pool_inv w \<Longrightarrow> pool_inv (fsearch_application_activate w)"
  by (simp add: fsearch_application_activate_def pool_inv_activate_action)

lemma pool_inv_idle_dropped:
  "pool_inv (w\<lparr>idle_sources := srcs\<rparr>) = pool_inv w"
  by (simp add: pool_inv_def tasks_defs split: option.splits)

lemma pool_inv_dispatch_idle:
  "pool_inv w \<Longrightarrow> pool_inv (dispatch_idle w)"
  by (simp add: dispatch_idle_def on_database_scan_enqueue_def pool_inv_idle_dropped Let_def
        split: list.splits idle_source.splits)

lemma pool_inv_pool_func_end:
  "pool_inv (database_pool_func_end ctx d has_cb r w) = pool_inv w"
  by (simp add: database_pool_func_end_def pool_inv_def tasks_defs
        split: option.splits update_func_ptr.splits finished_cb_ptr.splits)

lemma pool_inv_pool_start:
  assumes "pool_inv w"
  shows "pool_inv (pool_start d w)"
proof (cases "db_pool w")
  case None
  with assms show ?thesis by (simp add: pool_inv_def)
next
  case (Some p)
  show ?thesis
  proof (cases "pool_queue p")
    case Nil
    with Some assms show ?thesis by (simp add: pool_start_def)
  next
    case (Cons ctx rest)
    show ?thesis
    proof (cases "length (pool_running p) < max_threads p")
      case False
      with Some Cons assms show ?thesis by (simp add: pool_start_def)
    next
      case True
      let ?w1 = "emit (Pool_start ctx)
                   (w\<lparr>db_pool := Some (p\<lparr>pool_queue := rest,
                                          pool_running := pool_running p @
                                            [(ctx, d, show_indexing_status (config w))]\<rparr>)\<rparr>)"
      from assms Some Cons True have "pool_inv ?w1"
        by (simp add: pool_inv_def tasks_defs)
      moreover from Some Cons True have "pool_start d w = database_pool_func_begin ctx d ?w1"
        by (simp add: pool_start_def)
      ultimately show ?thesis by simp
    qed
  qed
qed

lemma pool_inv_pool_finish:
  assumes "pool_inv w"
  shows "pool_inv (pool_finish r w)"
proof (cases "db_pool w")
  case None
  with assms show ?thesis by (simp add: pool_inv_def)
next
  case (Some p)
  show ?thesis
  proof (cases "pool_running p")
    case Nil
    with Some assms show ?thesis by (simp add: pool_finish_def)
  next
    case (Cons t rest)
    obtain ctx d has_cb where t: "t = (ctx, d, has_cb)" by (cases t)
    from assms Some Cons t have "pool_inv (w\<lparr>db_pool := Some (p\<lparr>pool_running := rest\<rparr>)\<rparr>)"
      by (simp add: pool_inv_def tasks_defs)
    with Some Cons t show ?thesis
      by (simp add: pool_finish_def pool_inv_pool_func_end)
  qed
qed

lemma pool_inv_step: "pool_inv w \<Longrightarrow> pool_inv (step e w)"
proof (cases e)
  case (Command_line b)
  assume "pool_inv w"
  then show ?thesis
    using Command_line by (simp add: fsearch_application_command_line_def pool_inv_activate)
next
  case (Activate_action n)
  assume "pool_inv w"
  then show ?thesis using Activate_action by (simp add: pool_inv_activate_action)
next
  case (Preferences_finished c changed)
  assume "pool_inv w"
  then show ?thesis
    using Preferences_finished by (simp add: on_preferences_ui_finished_def split: option.splits)
next
  case Idle
  assume "pool_inv w"
  then show ?thesis using Idle by (simp add: pool_inv_dispatch_idle)
next
  case (Timeout tag)
  assume "pool_inv w"
  then show ?thesis
    using Timeout by (simp add: dispatch_timeout_def on_database_auto_update_def pool_inv_activate_action)
next
  case (Worker_start d)
  assume "pool_inv w"
  then show ?thesis using Worker_start by (simp add: pool_inv_pool_start)
next
  case (Worker_finish r)
  assume "pool_inv w"
  then show ?thesis using Worker_finish by (simp add: pool_inv_pool_finish)
qed

lemma pool_inv_run: "pool_inv w \<Longrightarrow> pool_inv (run evs w)"
  unfolding run_def by (induction evs arbitrary: w) (simp_all add: pool_inv_step)

lemma pool_inv_startup: "pool_inv (fsearch_application_startup loaded_config data_dir)"
  by (simp add: pool_inv_def fsearch_application_startup_def pushed_tasks_def started_tasks_def)


subsection \<open>The counter invariant is kept by every step that stays in range\<close>

lemma word32_of_nat_eq_0:
  "n < 2 ^ 31 \<Longrightarrow> (of_nat n :: 32 word) = 0 \<longleftrightarrow> n = 0"
proof -
  assume n: "n < 2 ^ 31"
  have "(of_nat n :: 32 word) = 0 \<longleftrightarrow> 2 ^ 32 dvd n"
    by (simp add: word_of_nat_eq_0_iff)
  also from n have "\<dots> \<longleftrightarrow> n = 0"
    by (auto dest: dvd_imp_le)
  finally show ?thesis .
qed

lemma sint_word32_of_nat:
  "n < 2 ^ 31 \<Longrightarrow> sint (of_nat n :: 32 word) = int n"
  by (simp add: signed_of_nat signed_take_bit_int_eq_self)

lemma in_flight_enqueue:
  "pool_inv w \<Longrightarrow> in_flight (database_scan_or_load_enqueue act w) = Suc (in_flight w)"
  by (cases "db_pool w") (simp_all add: pool_inv_def in_flight_def pool_tasks_def)

lemma counter_inv_enqueue:
  assumes "counter_inv w" and "in_flight (database_scan_or_load_enqueue act w) < 2 ^ 31"
  shows "counter_inv (database_scan_or_load_enqueue act w)"
proof -
  from assms(1) have pi: "pool_inv w" and en: "actions_enabled w ''update_database'' \<noteq> None"
    by (simp_all add: counter_inv_def)
  from en have "actions_enabled (database_scan_or_load_enqueue act w) ''update_database'' = Some False"
    by (auto split: option.splits)
  with assms pi show ?thesis
    by (simp add: counter_inv_def in_flight_enqueue)
qed

lemma activate_action_cases:
  "g_action_group_activate_action action_name w =
     database_scan_or_load_enqueue FSEARCH_DATABASE_ACTION_SCAN w \<or>
   coord_view (g_action_group_activate_action action_name w) = coord_view w"
proof (cases "actions_enabled w action_name = Some True")
  case False
  then have "g_action_group_activate_action action_name w = w"
    by (simp add: g_action_group_activate_action_def)
  then show ?thesis by simp
next
  case True
  show ?thesis
  proof (cases "action_name = ''update_database''")
    case True
    with \<open>actions_enabled w action_name = Some True\<close>
    have "g_action_group_activate_action action_name w =
            database_scan_or_load_enqueue FSEARCH_DATABASE_ACTION_SCAN w"
      by (simp add: g_action_group_activate_action_def action_update_database_activated_def)
    then show ?thesis by (rule disjI1)
  next
    case False
    with \<open>actions_enabled w action_name = Some True\<close>
    have "coord_view (g_action_group_activate_action action_name w) = coord_view w"
      by (simp add: g_action_group_activate_action_def
            action_cancel_update_database_activated_def action_new_window_activated_def
            view_cancellable view_updates)
    then show ?thesis by (rule disjI2)
  qed
qed

lemma counter_inv_activate_action:
  assumes "counter_inv w" and "in_flight (g_action_group_activate_action action_name w) < 2 ^ 31"
  shows "counter_inv (g_action_group_activate_action action_name w)"
proof -
  from activate_action_cases [of action_name w] show ?thesis
  proof
    assume "g_action_group_activate_action action_name w =
              database_scan_or_load_enqueue FSEARCH_DATABASE_ACTION_SCAN w"
    with assms show ?thesis by (simp only: counter_inv_enqueue)
  next
    assume "coord_view (g_action_group_activate_action action_name w) = coord_view w"
    from counter_inv_view [OF this] assms(1) show ?thesis by (simp only:)
  qed
qed

lemma counter_inv_activate:
  assumes "counter_inv w" and "in_flight (fsearch_application_activate w) < 2 ^ 31"
  shows "counter_inv (fsearch_application_activate w)"
proof (cases "\<not> new_window w \<and> 0 < num_windows w")
  case True
  with assms show ?thesis by (simp add: fsearch_application_activate_def)
next
  case False
  let ?w0 = "g_cancellable_reset (database_auto_update_init
               (g_action_group_activate_action ''new_window'' w))"
  let ?w1 = "database_scan_or_load_enqueue FSEARCH_DATABASE_ACTION_LOAD ?w0"
  have v: "coord_view ?w0 = coord_view w"
    by (simp add: view_cancellable view_auto_update_init g_action_group_activate_action_def
          action_new_window_activated_def view_updates)
  have c: "config ?w0 = config w"
    by (simp add: g_action_group_activate_action_def action_new_window_activated_def)
  from assms(1) have c0: "counter_inv ?w0" by (simp only: counter_inv_view [OF v])
  then have p0: "pool_inv ?w0" by (simp add: counter_inv_def)
  have p1: "pool_inv ?w1" using p0 by (rule pool_inv_enqueue)
  have "fsearch_application_activate w =
          (if update_database_on_launch (config ?w1)
           then database_scan_or_load_enqueue FSEARCH_DATABASE_ACTION_SCAN ?w1 else ?w1)"
    using False by (simp only: fsearch_application_activate_def if_False stmts_Cons stmts_Nil)
  then have act: "fsearch_application_activate w =
               (if update_database_on_launch (config w)
                then database_scan_or_load_enqueue FSEARCH_DATABASE_ACTION_SCAN ?w1 else ?w1)"
    by (simp only: enqueue_fields c)
  from assms(2) have b1: "in_flight ?w1 < 2 ^ 31"
    by (cases "update_database_on_launch (config w)")
       (simp_all only: act in_flight_enqueue [OF p1] if_True if_False Suc_lessD)
  from c0 b1 have c1: "counter_inv ?w1" by (rule counter_inv_enqueue)
  show ?thesis
  proof (cases "update_database_on_launch (config w)")
    case True
    with assms(2) act c1 show ?thesis by (simp only: if_True counter_inv_enqueue)
  next
    case False
    with act c1 show ?thesis by (simp only: if_False)
  qed
qed

lemma counter_inv_preferences:
  assumes "counter_inv w" and "in_flight (on_preferences_ui_finished c changed w) < 2 ^ 31"
  shows "counter_inv (on_preferences_ui_finished c changed w)"
proof (cases c)
  case None
  with assms(1) show ?thesis by (simp add: on_preferences_ui_finished_def)
next
  case (Some new_config)
  let ?w0 = "database_auto_update_init (w\<lparr>config := new_config\<rparr>)"
  from assms(1) have c0: "counter_inv ?w0" by simp
  show ?thesis
  proof (cases changed)
    case True
    with Some have "on_preferences_ui_finished c changed w =
                      database_scan_or_load_enqueue FSEARCH_DATABASE_ACTION_SCAN ?w0"
      by (simp add: on_preferences_ui_finished_def)
    with assms(2) c0 show ?thesis by (simp only: counter_inv_enqueue)
  next
    case False
    with Some have "on_preferences_ui_finished c changed w = ?w0"
      by (simp add: on_preferences_ui_finished_def)
    with c0 show ?thesis by (simp only:)
  qed
qed

lemma counter_inv_finished:
  assumes "counter_inv w" and "idle_sources w = On_database_update_finished user_data # rest"
  shows "counter_inv (on_database_update_finished user_data (w\<lparr>idle_sources := rest\<rparr>))"
proof -
  let ?w1 = "w\<lparr>idle_sources := rest\<rparr>"
  from assms have n: "in_flight w = Suc (in_flight ?w1)"
    by (simp add: in_flight_def)
  from assms(1) n have b: "in_flight ?w1 < 2 ^ 31" and sd: "\<not> is_shutting_down w"
    and num: "num_database_update_active w = of_nat (in_flight ?w1) + 1"
    and en: "actions_enabled w ''update_database'' = Some False"
    and pi: "pool_inv w"
    by (simp_all add: counter_inv_def)
  have fl: "in_flight (on_database_update_finished user_data ?w1) = in_flight ?w1"
    by (simp add: in_flight_def)
  from pi have "pool_inv (on_database_update_finished user_data ?w1)"
    by (simp add: pool_inv_idle_dropped)
  moreover from sd have "\<not> is_shutting_down (on_database_update_finished user_data ?w1)"
    by simp
  moreover from sd num
  have "num_database_update_active (on_database_update_finished user_data ?w1) =
          of_nat (in_flight ?w1)"
    by simp
  moreover from sd num en b
  have "actions_enabled (on_database_update_finished user_data ?w1) ''update_database'' =
          Some (in_flight ?w1 = 0)"
    by (auto simp add: word32_of_nat_eq_0 split: option.splits)
  ultimately show ?thesis
    using b by (simp add: counter_inv_def fl)
qed

lemma counter_inv_idle_other:
  assumes "counter_inv w" and "idle_sources w = src # rest" and "completions [src] = []"
  shows "counter_inv (w\<lparr>idle_sources := rest\<rparr>)"
proof -
  from assms(2,3) have "completions (idle_sources w) = completions rest"
    using completions_append [of "[src]" rest] by simp
  then have "coord_view (w\<lparr>idle_sources := rest\<rparr>) = coord_view w"
    by (simp add: coord_view_def tasks_defs)
  from counter_inv_view [OF this] assms(1) show ?thesis by (simp only:)
qed

lemma counter_inv_dispatch_idle:
  assumes "counter_inv w" and "in_flight (dispatch_idle w) < 2 ^ 31"
  shows "counter_inv (dispatch_idle w)"
proof (cases "idle_sources w")
  case Nil
  with assms show ?thesis by (simp add: dispatch_idle_def)
next
  case (Cons src rest)
  show ?thesis
  proof (cases src)
    case (On_database_update_finished user_data)
    with Cons assms(1) show ?thesis
      by (simp add: dispatch_idle_def counter_inv_finished)
  next
    case On_database_load_started
    with Cons counter_inv_idle_other [OF assms(1) Cons] show ?thesis
      by (simp add: dispatch_idle_def)
  next
    case On_database_scan_started
    with Cons counter_inv_idle_other [OF assms(1) Cons] show ?thesis
      by (simp add: dispatch_idle_def)
  next
    case On_database_scan_enqueue
    with Cons counter_inv_idle_other [OF assms(1) Cons] assms(2) show ?thesis
      by (simp add: dispatch_idle_def on_database_scan_enqueue_def counter_inv_enqueue)
  next
    case (On_database_notify_status msg)
    with Cons counter_inv_idle_other [OF assms(1) Cons] show ?thesis
      by (simp add: dispatch_idle_def)
  qed
qed

lemma counter_inv_pool_start:
  assumes "counter_inv w"
  shows "counter_inv (pool_start d w)"
proof -
  have "pool_inv (pool_start d w)"
    using assms by (simp add: counter_inv_def pool_inv_pool_start)
  moreover have "is_shutting_down (pool_start d w) = is_shutting_down w"
    and "num_database_update_active (pool_start d w) = num_database_update_active w"
    and "actions_enabled (pool_start d w) = actions_enabled w"
    and "in_flight (pool_start d w) = in_flight w"
    by (simp_all add: pool_start_def in_flight_def pool_tasks_def
          split: option.splits list.splits started_cb_ptr.splits)
  ultimately show ?thesis
    using assms by (simp add: counter_inv_def)
qed

lemma counter_inv_pool_finish:
  assumes "counter_inv w"
  shows "counter_inv (pool_finish r w)"
proof -
  from assms have pi: "pool_inv w" by (simp add: counter_inv_def)
  have "pool_inv (pool_finish r w)"
    using pi by (rule pool_inv_pool_finish)
  moreover have "is_shutting_down (pool_finish r w) = is_shutting_down w"
    and "num_database_update_active (pool_finish r w) = num_database_update_active w"
    and "actions_enabled (pool_finish r w) = actions_enabled w"
    by (simp_all add: pool_finish_def database_pool_func_end_def
          split: option.splits list.splits update_func_ptr.splits finished_cb_ptr.splits)
  moreover from pi have "in_flight (pool_finish r w) = in_flight w"
    by (auto simp add: pool_inv_def task_ok_def pool_finish_def database_pool_func_end_def
          in_flight_def pool_tasks_def
          split: option.splits list.splits update_func_ptr.splits finished_cb_ptr.splits)
  ultimately show ?thesis
    using assms by (simp add: counter_inv_def)
qed

lemma counter_inv_step:
  assumes "counter_inv w" and "in_flight (step e w) < 2 ^ 31"
  shows "counter_inv (step e w)"
proof (cases e)
  case (Command_line b)
  let ?w0 = "if b then w\<lparr>new_window := True\<rparr> else w"
  have v: "coord_view ?w0 = coord_view w" by (simp add: view_updates)
  have s: "step e w = (fsearch_application_activate ?w0)\<lparr>new_window := False\<rparr>"
    using Command_line by (simp add: fsearch_application_command_line_def)
  from assms(1) have "counter_inv ?w0" by (simp only: counter_inv_view [OF v])
  moreover from assms(2) have "in_flight (fsearch_application_activate ?w0) < 2 ^ 31"
    by (simp only: s neutral_in_flight)
  ultimately have "counter_inv (fsearch_application_activate ?w0)"
    by (rule counter_inv_activate)
  then show ?thesis by (simp only: s neutral_counter_inv)
next
  case (Activate_action n)
  with assms show ?thesis by (simp add: counter_inv_activate_action)
next
  case (Preferences_finished c changed)
  with assms show ?thesis by (simp add: counter_inv_preferences)
next
  case Idle
  with assms show ?thesis by (simp add: counter_inv_dispatch_idle)
next
  case (Timeout tag)
  show ?thesis
  proof (cases "tag \<in> fst ` set (timeout_sources w)")
    case True
    with Timeout have "step e w = g_action_group_activate_action ''update_database'' w"
      by (simp add: dispatch_timeout_def on_database_auto_update_def)
    with assms show ?thesis by (simp only: counter_inv_activate_action)
  next
    case False
    with Timeout assms(1) show ?thesis by (simp add: dispatch_timeout_def)
  qed
next
  case (Worker_start d)
  with assms show ?thesis by (simp add: counter_inv_pool_start)
next
  case (Worker_finish r)
  with assms show ?thesis by (simp add: counter_inv_pool_finish)
qed

lemma counter_in_range_head: "counter_in_range evs w \<Longrightarrow> in_flight w < 2 ^ 31"
  by (cases evs) simp_all

lemma counter_inv_run:
  "counter_inv w \<Longrightarrow> counter_in_range evs w \<Longrightarrow> counter_inv (run evs w)"
  unfolding run_def
proof (induction evs arbitrary: w)
  case Nil
  then show ?case by simp
next
  case (Cons e evs)
  from Cons.prems(2) have r: "counter_in_range evs (step e w)" by simp
  then have "in_flight (step e w) < 2 ^ 31" by (rule counter_in_range_head)
  with Cons.prems(1) have "counter_inv (step e w)" by (rule counter_inv_step)
  with r show ?case by (simp add: Cons.IH)
qed

lemma counter_inv_startup: "counter_inv (fsearch_application_startup loaded_config data_dir)"
  by (simp add: counter_inv_def pool_inv_startup)
     (simp add: fsearch_application_startup_def in_flight_def pool_tasks_def
        fsearch_app_entries_def)


subsection \<open>Dispatching the idle queue\<close>

lemma dispatch_idle_fields:
  "idle_sources (dispatch_idle w) = tl (idle_sources w)"
  "is_shutting_down (dispatch_idle w) = is_shutting_down w"
  by (simp_all add: dispatch_idle_def on_database_scan_enqueue_def Let_def
        split: list.splits idle_source.splits)

lemma dispatch_idle_not_cancelled:
  "\<not> db_thread_cancellable w \<Longrightarrow> \<not> db_thread_cancellable (dispatch_idle w)"
  by (simp add: dispatch_idle_def on_database_scan_enqueue_def Let_def
        split: list.splits idle_source.splits)

lemma run_Cons [simp]: "run (e # evs) w = run evs (step e w)"
  by (simp add: run_def)

lemma run_Nil [simp]: "run [] w = w"
  by (simp add: run_def)

subsection \<open>Shutdown waits for the pool\<close>

lemma shutdown_waits_for_the_pool:
  "db_pool (fsearch_application_shutdown_pool shutdown_outcome (run two_started launch_scan_world)) =
     None \<and>
   completions
     (idle_sources
        (fsearch_application_shutdown_pool shutdown_outcome (run two_started launch_scan_world))) =
     [Some 0, Some 1] \<and>
   filter is_db_save
     (effects
        (fsearch_application_shutdown_pool shutdown_outcome (run two_started launch_scan_world))) =
     []"
  by code_simp

subsection \<open>The two parts of a task\<close>

lemma database_pool_func_end_fields:
  "db (database_pool_func_end ctx d has_cb r w) = db w"
  "config (database_pool_func_end ctx d has_cb r w) = config w"
  "db_pool (database_pool_func_end ctx d has_cb r w) = db_pool w"
  "new_window (database_pool_func_end ctx d has_cb r w) = new_window w"
  "num_windows (database_pool_func_end ctx d has_cb r w) = num_windows w"
  "db_state (database_pool_func_end ctx d has_cb r w) =
       (case finished_cb ctx of None \<Rightarrow> db_state w | Some cb \<Rightarrow> FSEARCH_DATABASE_STATE_IDLE)"
  "db_timeout_id (database_pool_func_end ctx d has_cb r w) = db_timeout_id w"
  "db_thread_cancellable (database_pool_func_end ctx d has_cb r w) = db_thread_cancellable w"
  "num_database_update_active (database_pool_func_end ctx d has_cb r w) = num_database_update_active w"
  "mutex (database_pool_func_end ctx d has_cb r w) = mutex w"
  "is_shutting_down (database_pool_func_end ctx d has_cb r w) = is_shutting_down w"
  "idle_sources (database_pool_func_end ctx d has_cb r w) = idle_sources w @
       (if has_cb then map On_database_notify_status (List.map_filter (\<lambda>t. t) (status_texts r))
        else []) @
       (case update_func ctx of
          Database_scan_and_save \<Rightarrow>
            (if succeeded r \<and> \<not> db_thread_cancellable w \<and> show_indexing_status (config w)
             then [On_database_notify_status saving_text] else [])
        | Database_load \<Rightarrow>
            (if \<not> succeeded r \<and> \<not> update_database_on_launch (config w)
             then [On_database_scan_enqueue] else [])) @
       (case finished_cb ctx of None \<Rightarrow> [] | Some cb \<Rightarrow> [On_database_update_finished (Some d)])"
  "timeout_sources (database_pool_func_end ctx d has_cb r w) = timeout_sources w"
  "next_source_id (database_pool_func_end ctx d has_cb r w) = next_source_id w"
  "actions_enabled (database_pool_func_end ctx d has_cb r w) = actions_enabled w"
  "user_data_dir (database_pool_func_end ctx d has_cb r w) = user_data_dir w"
  "effects (database_pool_func_end ctx d has_cb r w) = effects w @
       (case update_func ctx of
          Database_scan_and_save \<Rightarrow>
            (if succeeded r \<and> \<not> db_thread_cancellable w
             then [Call_db_save d (user_data_dir w @ ''/fsearch'')] else [])
        | Database_load \<Rightarrow> [])"
  by (simp_all add: database_pool_func_end_def
        split: option.splits update_func_ptr.splits finished_cb_ptr.splits)

lemma database_scan_and_save_parts:
  "database_scan_and_save r d app =
     database_scan_and_save_return r d (show_indexing_status (config app))
       (database_scan_and_save_call d app)"
  by (simp add: database_scan_and_save_def database_scan_and_save_return_def
        database_scan_and_save_call_def db_scan_def g_cancellable_is_cancelled_def
        fsearch_application_get_database_dir_def Let_def)

lemma database_load_parts:
  "database_load r d app =
     database_load_return r (show_indexing_status (config app)) (database_load_call d app)"
  by (simp add: database_load_def database_load_return_def database_load_call_def db_load_def
        fsearch_application_get_database_file_path_def Let_def)

subsection \<open>Completions are handled in the order of their completion\<close>

lemma completing_pool_finish:
  "completions (idle_sources (pool_finish r w)) = completions (idle_sources w) @ completing w"
  by (simp add: pool_finish_def completing_def database_pool_func_end_def
        split: option.splits list.splits update_func_ptr.splits finished_cb_ptr.splits)

lemma completions_pool_start:
  "completions (idle_sources (pool_start d w)) = completions (idle_sources w)"
  by (simp add: pool_start_def split: option.splits list.splits started_cb_ptr.splits)

lemma idle_sources_activate_action:
  "idle_sources (g_action_group_activate_action n w) = idle_sources w"
  by (simp add: g_action_group_activate_action_def action_update_database_activated_def
        action_cancel_update_database_activated_def action_new_window_activated_def)

lemma idle_sources_activate:
  "idle_sources (fsearch_application_activate w) = idle_sources w"
  by (simp add: fsearch_application_activate_def idle_sources_activate_action)

lemma idle_sources_command_line:
  "idle_sources (fsearch_application_command_line b w) = idle_sources w"
  by (simp add: fsearch_application_command_line_def idle_sources_activate)

lemma idle_sources_preferences:
  "idle_sources (on_preferences_ui_finished c ch w) = idle_sources w"
  by (simp add: on_preferences_ui_finished_def split: option.splits)

lemma idle_sources_timeout:
  "idle_sources (dispatch_timeout tag w) = idle_sources w"
  by (simp add: dispatch_timeout_def on_database_auto_update_def idle_sources_activate_action)

lemma completions_take_drop:
  "completions srcs = completions (take 1 srcs) @ completions (tl srcs)"
  by (cases srcs) (simp_all add: completions_def List.map_filter_def)

lemma completions_step:
  "completions (idle_sources w) @ (case e of Worker_finish r \<Rightarrow> completing w | _ \<Rightarrow> []) =
     map fst (case e of
        Idle \<Rightarrow>
          map (\<lambda>user_data. (user_data, \<not> is_shutting_down w \<and> \<not> db_thread_cancellable w))
            (completions (take 1 (idle_sources w)))
      | _ \<Rightarrow> []) @ completions (idle_sources (step e w))"
proof (cases e)
  case Idle
  then show ?thesis
    using completions_take_drop [of "idle_sources w"]
    by (simp add: dispatch_idle_fields comp_def)
qed (simp_all add: idle_sources_command_line idle_sources_activate_action
       idle_sources_preferences idle_sources_timeout completions_pool_start
       completing_pool_finish)

lemma completions_run:
  "completions (idle_sources w) @ completed evs w =
     map fst (handled evs w) @ completions (idle_sources (run evs w))"
proof (induction evs arbitrary: w)
  case Nil
  then show ?case by simp
next
  case (Cons e es)
  have "completions (idle_sources w) @ completed (e # es) w =
          (completions (idle_sources w) @ (case e of Worker_finish r \<Rightarrow> completing w | _ \<Rightarrow> [])) @
          completed es (step e w)"
    by simp
  also have "\<dots> = map fst (case e of
        Idle \<Rightarrow>
          map (\<lambda>user_data. (user_data, \<not> is_shutting_down w \<and> \<not> db_thread_cancellable w))
            (completions (take 1 (idle_sources w)))
      | _ \<Rightarrow> []) @ (completions (idle_sources (step e w)) @ completed es (step e w))"
    unfolding completions_step [of w e] by simp
  also have "\<dots> = map fst (handled (e # es) w) @ completions (idle_sources (run (e # es) w))"
    unfolding Cons.IH by simp
  finally show ?case .
qed

subsection \<open>The published database is the one of the last handler that published\<close>

lemma db_activate_action: "db (g_action_group_activate_action n w) = db w"
  by (simp add: g_action_group_activate_action_def action_update_database_activated_def
        action_cancel_update_database_activated_def action_new_window_activated_def)

lemma db_command_line: "db (fsearch_application_command_line b w) = db w"
  by (simp add: fsearch_application_command_line_def fsearch_application_activate_def
        db_activate_action)

lemma db_preferences: "db (on_preferences_ui_finished c ch w) = db w"
  by (simp add: on_preferences_ui_finished_def split: option.splits)

lemma db_timeout: "db (dispatch_timeout tag w) = db w"
  by (simp add: dispatch_timeout_def on_database_auto_update_def db_activate_action)

lemma db_pool_start: "db (pool_start d w) = db w"
  by (simp add: pool_start_def split: option.splits list.splits)

lemma db_pool_finish: "db (pool_finish r w) = db w"
  by (simp add: pool_finish_def database_pool_func_end_fields split: option.splits list.splits)

lemma db_dispatch_idle:
  "db (dispatch_idle w) =
     (case completions (take 1 (idle_sources w)) of
        [] \<Rightarrow> db w
      | user_data # _ \<Rightarrow>
          if \<not> is_shutting_down w \<and> \<not> db_thread_cancellable w then user_data else db w)"
  by (simp add: dispatch_idle_def on_database_scan_enqueue_def Let_def
        split: list.splits idle_source.splits)

lemma db_step:
  "db (step e w) = (if published [e] w = [] then db w else last (published [e] w))"
proof (cases e)
  case Idle
  show ?thesis
  proof (cases "idle_sources w")
    case Nil
    with Idle show ?thesis by (simp add: published_def dispatch_idle_def)
  next
    case (Cons src rest)
    with Idle show ?thesis
      using db_dispatch_idle [of w] by (cases src) (simp_all add: published_def)
  qed
qed (simp_all add: published_def db_command_line db_activate_action db_preferences db_timeout
       db_pool_start db_pool_finish)

lemma published_Cons: "published (e # es) w = published [e] w @ published es (step e w)"
  by (simp add: published_def)

lemma db_run:
  "db (run evs w) = (if published evs w = [] then db w else last (published evs w))"
proof (induction evs arbitrary: w)
  case Nil
  then show ?case by (simp add: published_def)
next
  case (Cons e es)
  have "db (run (e # es) w) = db (run es (step e w))" by simp
  also have "\<dots> = (if published es (step e w) = [] then db (step e w)
                     else last (published es (step e w)))"
    by (rule Cons.IH)
  also have "\<dots> = (if published (e # es) w = [] then db w else last (published (e # es) w))"
    unfolding published_Cons [of e es w] db_step [of e w] by simp
  finally show ?case .
qed

lemma shutting_down_step: "is_shutting_down (step e w) = is_shutting_down w"
proof (cases e)
  case (Command_line b)
  then show ?thesis
    by (simp add: fsearch_application_command_line_def fsearch_application_activate_def
          g_action_group_activate_action_def action_update_database_activated_def
          action_cancel_update_database_activated_def action_new_window_activated_def)
next
  case (Activate_action n)
  then show ?thesis
    by (simp add: g_action_group_activate_action_def action_update_database_activated_def
          action_cancel_update_database_activated_def action_new_window_activated_def)
next
  case (Preferences_finished c ch)
  then show ?thesis by (simp add: on_preferences_ui_finished_def split: option.splits)
next
  case Idle
  then show ?thesis by (simp add: dispatch_idle_fields)
next
  case (Timeout tag)
  then show ?thesis
    by (simp add: dispatch_timeout_def on_database_auto_update_def
          g_action_group_activate_action_def action_update_database_activated_def)
next
  case (Worker_start d)
  then show ?thesis by (simp add: pool_start_def split: option.splits list.splits)
next
  case (Worker_finish r)
  then show ?thesis
    by (simp add: pool_finish_def database_pool_func_end_fields split: option.splits list.splits)
qed

lemma not_cancelled_step:
  assumes "e \<noteq> Activate_action ''cancel_update_database''" and "\<not> db_thread_cancellable w"
  shows "\<not> db_thread_cancellable (step e w)"
proof (cases e)
  case (Command_line b)
  with assms(2) show ?thesis
    by (simp add: fsearch_application_command_line_def fsearch_application_activate_def)
next
  case (Activate_action n)
  with assms show ?thesis
    by (simp add: g_action_group_activate_action_def action_update_database_activated_def
          action_new_window_activated_def)
next
  case (Preferences_finished c ch)
  with assms(2) show ?thesis by (simp add: on_preferences_ui_finished_def split: option.splits)
next
  case Idle
  with assms(2) show ?thesis by (simp add: dispatch_idle_not_cancelled)
next
  case (Timeout tag)
  with assms(2) show ?thesis
    by (simp add: dispatch_timeout_def on_database_auto_update_def
          g_action_group_activate_action_def action_update_database_activated_def)
next
  case (Worker_start d)
  with assms(2) show ?thesis by (simp add: pool_start_def split: option.splits list.splits)
next
  case (Worker_finish r)
  with assms(2) show ?thesis
    by (simp add: pool_finish_def database_pool_func_end_fields split: option.splits list.splits)
qed

lemma handled_without_cancel:
  "Activate_action ''cancel_update_database'' \<notin> set evs \<Longrightarrow>
   \<not> is_shutting_down w \<Longrightarrow> \<not> db_thread_cancellable w \<Longrightarrow>
   list_all snd (handled evs w)"
proof (induction evs arbitrary: w)
  case Nil
  then show ?case by simp
next
  case (Cons e es)
  from Cons.prems have "e \<noteq> Activate_action ''cancel_update_database''"
    and es: "Activate_action ''cancel_update_database'' \<notin> set es"
    by auto
  with Cons.prems have "\<not> db_thread_cancellable (step e w)" "\<not> is_shutting_down (step e w)"
    by (simp_all add: not_cancelled_step shutting_down_step)
  with es have "list_all snd (handled es (step e w))"
    by (simp add: Cons.IH)
  with Cons.prems(2,3) show ?case
    by (cases e) (auto simp add: list_all_iff)
qed

lemma published_without_cancel:
  "list_all snd (handled evs w) \<Longrightarrow> published evs w = map fst (handled evs w)"
  by (simp add: published_def list_all_iff)

subsection \<open>A completion that the main loop reaches while the cancellable is cancelled\<close>



subsection \<open>The tasks pushed by the launch and by the idle queue\<close>










lemma startup_clear:
  "\<not> is_shutting_down (fsearch_application_startup cfg dir)"
  "\<not> db_thread_cancellable (fsearch_application_startup cfg dir)"
  "idle_sources (fsearch_application_startup cfg dir) = []"
  "db (fsearch_application_startup cfg dir) = None"
  by (simp_all add: fsearch_application_startup_def)


section \<open>Claims\<close>




text \<open>
  C2 (as amended). The save of \<^verbatim>\<open>database_scan_and_save\<close> serializes the database that
  this scan has just built, into the database directory, exactly when the scan succeeded
  and the cancellable is not cancelled; it reads nothing of the published database,
  which it leaves as it is.
\<close>

theorem C2_scan_saves_the_new_database:
  "filter is_db_save (new_effects app (database_scan_and_save r d app)) =
     (if succeeded r \<and> \<not> db_thread_cancellable app
      then [Call_db_save d (user_data_dir app @ ''/fsearch'')] else []) \<and>
   db (database_scan_and_save r d app) = db app"
  by (simp add: new_effects_def is_db_save_def)

theorem C2_witness:
  "filter is_db_save
     (new_effects (run first_launch example_world)
        (database_scan_and_save failed_result 1 (run first_launch example_world))) = [] \<and>
   db (database_scan_and_save failed_result 1 (run first_launch example_world)) =
     db (run first_launch example_world)"
  using C2_scan_saves_the_new_database [of "run first_launch example_world" failed_result 1]
  by (simp add: failed_result_def)

text \<open>
  C2 as stated fails: with no database published, a successful scan saves the database
  it has built (it is not a no-op), and with database 0 published, the database saved
  after a scan is the new database 1, not the published one.
\<close>

theorem C2_counterexample:
  "db example_world = None \<and>
   filter is_db_save (new_effects example_world (database_scan_and_save ok_result 1 example_world)) =
     [Call_db_save 1 ''/home/user/.local/share/fsearch''] \<and>
   db (run first_launch example_world) = Some 0 \<and>
   filter is_db_save
     (new_effects (run first_launch example_world)
        (database_scan_and_save ok_result 1 (run first_launch example_world))) =
     [Call_db_save 1 ''/home/user/.local/share/fsearch'']"
  by code_simp




text \<open>
  C4 (as amended). In every run of the application from its startup, the completion
  handlers are dispatched in the order in which the requests completed; as long as no
  cancellation is requested, the current database is the one of the completion handled
  last (the start value before the first), whatever was current before. The handler
  makes every access to a shared field, the swap included, while it holds the state
  mutex.
\<close>

theorem C4_last_completed_wins:
  assumes "Activate_action ''cancel_update_database'' \<notin> set evs"
  shows "(let w0 = fsearch_application_startup loaded_config data_dir
          in completed evs w0 =
               map fst (handled evs w0) @ completions (idle_sources (run evs w0)) \<and>
             db (run evs w0) =
               (if handled evs w0 = [] then db w0 else fst (last (handled evs w0)))) \<and>
         list_all lock_held (new_effects v (on_database_update_finished user_data v))"
proof -
  let ?w0 = "fsearch_application_startup loaded_config data_dir :: 'a world"
  have 1: "completed evs ?w0 =
             map fst (handled evs ?w0) @ completions (idle_sources (run evs ?w0))"
    using completions_run [of ?w0 evs] by (simp add: startup_clear)
  from assms have "list_all snd (handled evs ?w0)"
    by (simp add: handled_without_cancel startup_clear)
  then have "published evs ?w0 = map fst (handled evs ?w0)"
    by (rule published_without_cancel)
  with db_run [of evs ?w0]
  have 2: "db (run evs ?w0) =
             (if handled evs ?w0 = [] then db ?w0 else fst (last (handled evs ?w0)))"
    by (simp add: last_map)
  have 3: "list_all lock_held (new_effects v (on_database_update_finished user_data v))"
    by (simp add: new_effects_def lock_held_def split: option.splits)
  show ?thesis
    unfolding Let_def using 1 2 3 by blast
qed

theorem C4_witness:
  "Activate_action ''cancel_update_database'' \<notin> set two_handled \<and>
   completed two_handled launch_scan_world = [Some 0, Some 1] \<and>
   map fst (handled two_handled launch_scan_world) = [Some 0, Some 1] \<and>
   db (run two_handled launch_scan_world) = Some 1"
proof -
  let ?w0 = "fsearch_application_startup launch_scan_config ''/home/user/.local/share'' :: nat world"
  have h: "Activate_action ''cancel_update_database'' \<notin> set two_handled"
    by (simp add: two_handled_def two_completed_def)
  have c: "completed two_handled ?w0 = [Some 0, Some 1]"
    by code_simp
  have l: "handled two_handled ?w0 = [(Some 0, True), (Some 1, True)]"
    by code_simp
  from C4_last_completed_wins
         [OF h, where loaded_config = launch_scan_config and
            data_dir = "''/home/user/.local/share''" and v = launch_scan_world and
            user_data = None]
  have "db (run two_handled ?w0) =
          (if handled two_handled ?w0 = [] then db ?w0 else fst (last (handled two_handled ?w0)))"
    by (simp only: Let_def)
  with h c l show ?thesis
    by (simp add: launch_scan_world_def)
qed

text \<open>
  C4 as stated fails once a cancellation is requested. After the first launch a rescan
  is cancelled while the engine scans: the request completes, its handler runs after
  the one of the load and discards database 1, and the current database stays database
  0. The same happens when the cancellation comes late: the load and the scan of a
  launch both complete, in this order; the user cancels after the main loop has run the
  completion handler of the load; the handler of the scan then discards database 1, and
  the current database stays database 0, which did not complete last.
\<close>

theorem C4_counterexample:
  "completed cancelled_rescan_handled example_world = [Some 0, Some 1] \<and>
   handled cancelled_rescan_handled example_world = [(Some 0, True), (Some 1, False)] \<and>
   db (run cancelled_rescan_handled example_world) = Some 0 \<and>
   completed late_cancel launch_scan_world = [Some 0, Some 1] \<and>
   handled late_cancel launch_scan_world = [(Some 0, True), (Some 1, False)] \<and>
   idle_sources (run late_cancel launch_scan_world) = [] \<and>
   db (run late_cancel launch_scan_world) = Some 0"
  by code_simp

text \<open>
  C5. In every state that the running application reaches from its startup, the pool is
  the one created with one thread, at most one task is running, and the tasks started
  so far followed by the waiting ones are the tasks pushed so far, in the order of
  their pushes; \<^verbatim>\<open>database_scan_or_load_enqueue\<close> pushes every request to the end of
  that pool's queue.
\<close>

theorem C5_single_worker_fifo:
  "(let w = run evs (fsearch_application_startup loaded_config data_dir)
    in case db_pool w of
         None \<Rightarrow> False
       | Some p \<Rightarrow>
           max_threads p = 1 \<and> length (pool_running p) \<le> 1 \<and>
           started_tasks w @ pool_queue p = pushed_tasks w) \<and>
   db_pool (database_scan_or_load_enqueue act v) =
     map_option (\<lambda>p. p\<lparr>pool_queue := pool_queue p @ [new_context act]\<rparr>) (db_pool v)"
proof -
  have "pool_inv (run evs (fsearch_application_startup loaded_config data_dir))"
    by (rule pool_inv_run [OF pool_inv_startup])
  then show ?thesis
    by (simp add: pool_inv_def Let_def split: option.splits)
qed

theorem C5_witness:
  "db_pool (run two_started launch_scan_world) =
     Some \<lparr>max_threads = 1, exclusive = True,
           pool_queue = [new_context FSEARCH_DATABASE_ACTION_SCAN],
           pool_running = [(new_context FSEARCH_DATABASE_ACTION_LOAD, 0, True)]\<rparr> \<and>
   started_tasks (run two_started launch_scan_world) = [new_context FSEARCH_DATABASE_ACTION_LOAD] \<and>
   pushed_tasks (run two_started launch_scan_world) =
     [new_context FSEARCH_DATABASE_ACTION_LOAD, new_context FSEARCH_DATABASE_ACTION_SCAN]"
proof -
  let ?w = "run two_started (fsearch_application_startup launch_scan_config ''/home/user/.local/share'')"
  have p: "db_pool ?w =
     Some \<lparr>max_threads = 1, exclusive = True,
           pool_queue = [new_context FSEARCH_DATABASE_ACTION_SCAN],
           pool_running = [(new_context FSEARCH_DATABASE_ACTION_LOAD, 0, True)]\<rparr>"
    by code_simp
  have s: "started_tasks ?w = [new_context FSEARCH_DATABASE_ACTION_LOAD]"
    by code_simp
  from C5_single_worker_fifo [of two_started launch_scan_config "''/home/user/.local/share''"
         FSEARCH_DATABASE_ACTION_SCAN launch_scan_world]
  have "case db_pool ?w of None \<Rightarrow> False
        | Some p \<Rightarrow> max_threads p = 1 \<and> length (pool_running p) \<le> 1 \<and>
                     started_tasks ?w @ pool_queue p = pushed_tasks ?w"
    by (simp only: Let_def)
  then have "pushed_tasks ?w = started_tasks ?w @ [new_context FSEARCH_DATABASE_ACTION_SCAN]"
    by (simp add: p)
  with p s show ?thesis unfolding launch_scan_world_def by simp
qed

text \<open>
  C6 (as amended). Every enqueued request increments the counter of active requests, and
  every completion handler that runs while the application is not shutting down
  decrements it. In every state that the running application reaches from its startup
  (with the requests in flight within the range of the counter), the counter is the
  number of requests enqueued and not yet finished, and the update-database action is
  enabled exactly when that number is zero.
\<close>

theorem C6_counter_counts_requests_in_flight:
  assumes "counter_in_range evs (fsearch_application_startup loaded_config data_dir)"
  shows "(let w = run evs (fsearch_application_startup loaded_config data_dir)
          in sint (num_database_update_active w) = int (in_flight w) \<and>
             actions_enabled w ''update_database'' = Some (in_flight w = 0) \<and>
             \<not> is_shutting_down w) \<and>
         num_database_update_active (database_scan_or_load_enqueue act v) =
           num_database_update_active v + 1 \<and>
         num_database_update_active (on_database_update_finished user_data v) =
           (if is_shutting_down v then num_database_update_active v
            else num_database_update_active v - 1)"
proof -
  have "counter_inv (run evs (fsearch_application_startup loaded_config data_dir))"
    using counter_inv_startup assms by (rule counter_inv_run)
  then show ?thesis
    by (simp add: counter_inv_def Let_def sint_word32_of_nat)
qed

theorem C6_witness:
  "counter_in_range two_started launch_scan_world \<and>
   sint (num_database_update_active (run two_started launch_scan_world)) = 2 \<and>
   in_flight (run two_started launch_scan_world) = 2 \<and>
   actions_enabled (run two_started launch_scan_world) ''update_database'' = Some False"
proof -
  let ?w0 = "fsearch_application_startup launch_scan_config ''/home/user/.local/share'' :: nat world"
  have i0: "in_flight ?w0 = 0"
    by code_simp
  have i1: "in_flight (fsearch_application_command_line False ?w0) = 2"
    by code_simp
  have i2: "in_flight (pool_start 0 (fsearch_application_command_line False ?w0)) = 2"
    by code_simp
  have h: "counter_in_range two_started ?w0"
    unfolding two_started_def by (simp add: i0 i1 i2)
  have n: "in_flight (run two_started ?w0) = 2"
    unfolding two_started_def by (simp add: i2)
  from C6_counter_counts_requests_in_flight [OF h, of FSEARCH_DATABASE_ACTION_SCAN launch_scan_world None]
  have "sint (num_database_update_active (run two_started ?w0)) = int (in_flight (run two_started ?w0)) \<and>
        actions_enabled (run two_started ?w0) ''update_database'' =
          Some (in_flight (run two_started ?w0) = 0)"
    by (simp only: Let_def)
  then have "sint (num_database_update_active (run two_started ?w0)) = 2 \<and>
             actions_enabled (run two_started ?w0) ''update_database'' = Some False"
    by (simp add: n)
  with h n show ?thesis unfolding launch_scan_world_def by simp
qed

text \<open>
  C6 as stated fails once the application is shutting down: the completion handler of a
  finished request returns before the decrement, so the counter stays at 1 with no
  request left in flight, and the update-database action stays disabled.
\<close>

theorem C6_counterexample:
  "num_database_update_active
     (run [Idle, Idle] (fsearch_application_shutdown_pool shutdown_outcome (run one_completed example_world))) = 1 \<and>
   in_flight
     (run [Idle, Idle] (fsearch_application_shutdown_pool shutdown_outcome (run one_completed example_world))) = 0 \<and>
   actions_enabled
     (run [Idle, Idle] (fsearch_application_shutdown_pool shutdown_outcome (run one_completed example_world)))
     ''update_database'' = Some False"
  by code_simp

text \<open>
  C7 (as amended). \<^verbatim>\<open>on_database_update_finished\<close> makes each of its accesses to the
  published database reference and to the counter of active requests while it holds
  the state mutex. The two getters take no lock themselves: their read of the database
  reference is made under the mutex exactly when their caller holds it.
\<close>

theorem C7_completion_handler_holds_mutex:
  "list_all lock_held (new_effects w (on_database_update_finished user_data w)) \<and>
   new_effects w (snd (fsearch_application_get_db w)) =
     [Access Field_db Read (mutex w), Call_db_ref (db w)] \<and>
   new_effects w (snd (fsearch_application_get_num_db_entries db_get_num_entries w)) =
     [Access Field_db Read (mutex w)]"
  by (simp add: new_effects_def lock_held_def fsearch_application_get_db_def
        fsearch_application_get_num_db_entries_def split: option.splits)

theorem C7_witness:
  "list_all lock_held
     (new_effects (run first_launch example_world)
        (on_database_update_finished (Some 1) (run first_launch example_world)))"
  using C7_completion_handler_holds_mutex [of "run first_launch example_world" "Some 1"]
  by simp

text \<open>
  C7 as stated fails: \<^verbatim>\<open>database_scan_or_load_enqueue\<close> increments the counter of
  active requests without taking the state mutex.
\<close>

theorem C7_counterexample:
  "new_effects example_world
     (database_scan_or_load_enqueue FSEARCH_DATABASE_ACTION_SCAN example_world) =
     [Access Field_num_database_update_active Read False,
      Access Field_num_database_update_active Write False,
      Pool_push (new_context FSEARCH_DATABASE_ACTION_SCAN)] \<and>
   \<not> list_all lock_held
       (new_effects example_world
          (database_scan_or_load_enqueue FSEARCH_DATABASE_ACTION_SCAN example_world))"
  by code_simp

text \<open>
  C8. When no database has been published (the \<open>db\<close> reference is null),
  \<^verbatim>\<open>fsearch_application_get_num_db_entries\<close> returns 0, whatever \<^verbatim>\<open>db_get_num_entries\<close>
  is, and changes no field of the application.
\<close>

theorem C8_num_db_entries_null:
  assumes "db fsearch = None"
  shows "fst (fsearch_application_get_num_db_entries db_get_num_entries fsearch) = 0 \<and>
         FsearchApplication.truncate (snd (fsearch_application_get_num_db_entries db_get_num_entries fsearch))
           = FsearchApplication.truncate fsearch"
  using assms
  by (simp add: fsearch_application_get_num_db_entries_def access_def emit_def
        FsearchApplication.truncate_def)

theorem C8_witness:
  "db example_world = None \<and>
   fst (fsearch_application_get_num_db_entries (\<lambda>d. 7) example_world) = 0"
proof -
  have h: "db example_world = None"
    by (simp add: example_world_def fsearch_application_startup_def)
  from C8_num_db_entries_null [OF h, of "\<lambda>d. 7"] h show ?thesis by simp
qed

text \<open>
  C9 (as amended). \<^verbatim>\<open>database_auto_update_init\<close> removes the timeout it had scheduled
  before. With periodic updates enabled it schedules one timeout, whose interval in
  seconds is hours * 3600 + minutes * 60 computed in 32-bit unsigned arithmetic (that
  is, modulo 2^32) and then raised to 60 when it is below 60; with the feature disabled
  it schedules nothing and keeps no timeout id.
\<close>

theorem C9_auto_update_interval:
  "timeout_sources (database_auto_update_init w) =
     (if db_timeout_id w \<noteq> 0 then filter (\<lambda>t. fst t \<noteq> db_timeout_id w) (timeout_sources w)
      else timeout_sources w) @
     (if update_database_every (config w)
      then [(next_source_id w, auto_update_seconds (config w))] else []) \<and>
   db_timeout_id (database_auto_update_init w) =
     (if update_database_every (config w) then next_source_id w else 0) \<and>
   unat (auto_update_seconds (config w)) =
     max 60 ((unat (update_database_every_hours (config w)) * 3600 +
              unat (update_database_every_minutes (config w)) * 60) mod 2 ^ 32)"
  by (simp add: unat_auto_update_seconds)

theorem C9_witness:
  "timeout_sources (database_auto_update_init example_world) = [(1, 5400)] \<and>
   db_timeout_id (database_auto_update_init example_world) = 1"
  using C9_auto_update_interval [of example_world]
  by (simp add: example_world_def example_config_def fsearch_application_startup_def
        auto_update_seconds_def)

text \<open>
  C9 as stated fails where the product leaves 32 bits: for 1193047 hours the claim gives
  4294969200 seconds, and the timeout is scheduled every 1904 seconds.
\<close>

theorem C9_counterexample:
  "timeout_sources
     (database_auto_update_init
        (fsearch_application_startup overflow_config ''/home/user/.local/share'' :: nat world)) =
     [(1, 1904)] \<and>
   max 60 (unat (update_database_every_hours overflow_config) * 3600 +
           unat (update_database_every_minutes overflow_config) * 60) = 4294969200"
  by (simp add: fsearch_application_startup_def overflow_config_def auto_update_seconds_def)

text \<open>
  C10. When the file of the path has no parent (it is the root directory),
  \<^verbatim>\<open>fsearch_file_utils_open_parent_folder_with_optional_command\<close> opens the path of the
  file itself: it calls \<^verbatim>\<open>open_with_cmd\<close>, or \<^verbatim>\<open>fsearch_file_utils_open_path\<close> when
  no command is given, with that path as the folder, and does not take the failure
  branch. GIO gives every file made by \<^verbatim>\<open>g_file_new_for_path\<close> a path.
\<close>

theorem C10_root_is_its_own_parent:
  assumes "g_file_get_parent gio (g_file_new_for_path gio path) = None"
    and "g_file_get_path gio (g_file_new_for_path gio path) = Some own_path"
  shows "fsearch_file_utils_open_parent_folder_with_optional_command gio path cmd error_message =
           Returns_call (case cmd of
                           Some c \<Rightarrow> Open_with_cmd own_path path c
                         | None \<Rightarrow> Fsearch_file_utils_open_path own_path False)"
  using assms
  by (simp add: fsearch_file_utils_open_parent_folder_with_optional_command_def Let_def
        split: option.splits)

theorem C10_witness:
  "g_file_get_parent posix_file_ops (g_file_new_for_path posix_file_ops ''/'') = None \<and>
   g_file_get_path posix_file_ops (g_file_new_for_path posix_file_ops ''/'') = Some ''/'' \<and>
   fsearch_file_utils_open_parent_folder_with_optional_command posix_file_ops ''/''
     (Some ''nautilus {path}'') (Some []) =
     Returns_call (Open_with_cmd ''/'' ''/'' ''nautilus {path}'')"
proof -
  have h1: "g_file_get_parent posix_file_ops (g_file_new_for_path posix_file_ops ''/'') = None"
    by (simp add: posix_file_ops_def)
  have h2: "g_file_get_path posix_file_ops (g_file_new_for_path posix_file_ops ''/'') = Some ''/''"
    by (simp add: posix_file_ops_def components_path_def)
  from C10_root_is_its_own_parent [OF h1 h2, of "Some ''nautilus {path}''" "Some []"] h1 h2
  show ?thesis by simp
qed

end
